theory Spec2Isabelle
  imports Main
begin

section \<open>Values, errors and text helpers\<close>

text \<open>
  Values travelling through the migration engine are Python objects handed over by the
  database driver. \<open>PNone\<close> is \<open>None\<close>, \<open>PStr\<close> a \<open>str\<close>, \<open>PInt\<close> an unbounded
  \<open>int\<close>, \<open>PBool\<close> a \<open>bool\<close>. Every other driver value (float, datetime, Decimal,
  bytes, LOB) is \<open>POther s\<close>, where \<open>s\<close> is the text that \<open>str()\<close> gives for it.
\<close>

datatype pyval = PNone | PStr string | PInt int | PBool bool | POther string

datatype py_error = TypeError | RowCountError | DriverError

type_synonym row = "pyval list"

text \<open>Decimal rendering of a Python int, as \<open>str()\<close> and f-strings produce it.\<close>

definition digit_char :: "nat \<Rightarrow> char" where
  "digit_char n = ''0123456789'' ! n"

fun str_nat :: "nat \<Rightarrow> string" where
  "str_nat n = (if n < 10 then [digit_char n] else str_nat (n div 10) @ [digit_char (n mod 10)])"

definition str_int :: "int \<Rightarrow> string" where
  "str_int i = (if i < 0 then CHR ''-'' # str_nat (nat (- i)) else str_nat (nat i))"

fun py_str :: "pyval \<Rightarrow> string" where
  "py_str PNone = ''None''"
| "py_str (PStr s) = s"
| "py_str (PInt i) = str_int i"
| "py_str (PBool b) = (if b then ''True'' else ''False'')"
| "py_str (POther s) = s"

text \<open>\<open>isinstance(value, str)\<close>.\<close>

fun is_str :: "pyval \<Rightarrow> bool" where
  "is_str (PStr s) = True"
| "is_str v = False"

text \<open>\<open>sep.join(parts)\<close>.\<close>

fun join :: "string \<Rightarrow> string list \<Rightarrow> string" where
  "join sep [] = []"
| "join sep [x] = x"
| "join sep (x # y # ys) = x @ sep @ join sep (y # ys)"

text \<open>\<open>str.upper()\<close> on ASCII text.\<close>

definition upper_char :: "char \<Rightarrow> char" where
  "upper_char c = (let n = (of_char c :: nat) in if 97 \<le> n \<and> n \<le> 122 then char_of (n - 32) else c)"

definition upper :: "string \<Rightarrow> string" where
  "upper s = map upper_char s"

section \<open>Schema metadata\<close>

text \<open>
  One dictionary of \<open>get_table_schema\<close>: a row of \<open>user_tab_columns\<close>, in the order of
  \<open>column_id\<close>.
\<close>

record column =
  name :: string
  data_type :: string
  data_length :: "int option"
  data_precision :: "int option"
  data_scale :: "int option"
  nullable :: string

record index_definition =
  ix_name :: string
  ix_table_name :: string
  ix_columns :: "string list"
  ix_is_unique :: bool
  ix_tablespace_name :: "string option"

section \<open>Value coercion (migrator.py, convert_value and convert_row_values)\<close>

definition convert_value :: "pyval \<Rightarrow> string \<Rightarrow> pyval" where
  "convert_value v target_type =
     (if v = PNone then PNone
      else if target_type = ''VARCHAR2'' \<and> \<not> is_str v then PStr (py_str v)
      else v)"

definition convert_row_values :: "row \<Rightarrow> column list \<Rightarrow> row" where
  "convert_row_values r column_types =
     map (\<lambda>(val, col). convert_value val (data_type col)) (zip r column_types)"

text \<open>
  The specification's reading of a character column type: VarChar or FixedChar, which
  the engine's type map spells \<open>VARCHAR2\<close> and \<open>CHAR\<close>.
\<close>

definition spec_character_type :: "string \<Rightarrow> bool" where
  "spec_character_type t = (t = ''VARCHAR2'' \<or> t = ''CHAR'')"

section \<open>The database capability interface\<close>

text \<open>
  The driver and the database behind a connection are not part of the engine; they are a
  parameter. A connection is a state of type \<open>'db\<close>, and a \<open>driver\<close> says how that
  state answers. Queries only read the state; statements return whether they succeeded
  (\<open>False\<close> stands for a raised \<open>oracledb.Error\<close>) and the state afterwards.
  \<^item> \<open>drv_user_tables_count\<close>: the \<open>COUNT(*)\<close> of \<open>user_tables\<close> for a table name, that
    is \<open>result[0][0]\<close>, or \<open>None\<close> when \<open>execute_query\<close> came back empty;
  \<^item> \<open>drv_user_tab_columns\<close>: the rows of \<open>user_tab_columns\<close> ordered by \<open>column_id\<close>,
    empty when the query failed;
  \<^item> \<open>drv_user_indexes\<close>: the rows of the index query (name, table, uniqueness,
    tablespace, comma-separated columns), empty when the query failed;
  \<^item> \<open>drv_select\<close>: the result set of a query text, \<open>None\<close> when executing it raises;
  \<^item> \<open>drv_execute\<close>: \<open>cursor.execute(stmt)\<close> followed by \<open>commit()\<close>;
  \<^item> \<open>drv_executemany\<close>, \<open>drv_commit\<close>, \<open>drv_rollback\<close>: the batch primitives.
  Fetching from an opened cursor, \<open>setinputsizes\<close> and \<open>rollback\<close> are taken not to raise.
\<close>

type_synonym index_row = "string \<times> string \<times> string \<times> string option \<times> string"

record 'db driver =
  drv_user_tables_count :: "'db \<Rightarrow> string \<Rightarrow> int option"
  drv_user_tab_columns :: "'db \<Rightarrow> string \<Rightarrow> column list"
  drv_user_indexes :: "'db \<Rightarrow> string \<Rightarrow> index_row list"
  drv_select :: "'db \<Rightarrow> string \<Rightarrow> row list option"
  drv_execute :: "'db \<Rightarrow> string \<Rightarrow> bool \<times> 'db"
  drv_executemany :: "'db \<Rightarrow> string \<Rightarrow> row list \<Rightarrow> bool \<times> 'db"
  drv_commit :: "'db \<Rightarrow> bool \<times> 'db"
  drv_rollback :: "'db \<Rightarrow> 'db"

text \<open>
  Every call that reaches beyond a dictionary query is recorded, in order:
  \<open>ExecNonQuery sql ok\<close> is \<open>execute_non_query(sql)\<close> on the target with its result,
  \<open>FetchMany k n\<close> a \<open>fetchmany(k)\<close> on the source cursor that returned \<open>n\<close> rows,
  \<open>ExecuteMany stmt rows\<close> the bulk insert of the bound tuples \<open>rows\<close>.
\<close>

text \<open>The bind types of the driver that \<open>get_column_type\<close> chooses from.\<close>

datatype db_type =
    DB_TYPE_NUMBER | DB_TYPE_VARCHAR | DB_TYPE_CHAR | DB_TYPE_DATE | DB_TYPE_TIMESTAMP
  | DB_TYPE_CLOB | DB_TYPE_BLOB | DB_TYPE_RAW | DB_TYPE_LONG

datatype event =
    ExecNonQuery string bool
  | SetInputSizes "db_type list"
  | CursorOpen string nat
  | FetchMany nat nat
  | CursorClose
  | ExecuteMany string "row list"
  | Commit
  | Rollback

record 'db world =
  source :: 'db
  target :: 'db
  log :: "event list"

definition emit :: "event list \<Rightarrow> 'db world \<Rightarrow> 'db world" where
  "emit es w = w\<lparr>log := log w @ es\<rparr>"

text \<open>The events a run added to the log.\<close>

definition new_events :: "'db world \<Rightarrow> 'db world \<Rightarrow> event list" where
  "new_events w w' = drop (length (log w)) (log w')"

section \<open>connection.py\<close>

text \<open>\<open>execute_query\<close> without parameters: the error is swallowed into an empty list.\<close>

definition execute_query :: "'db driver \<Rightarrow> 'db \<Rightarrow> string \<Rightarrow> row list" where
  "execute_query drv conn query = (case drv_select drv conn query of None \<Rightarrow> [] | Some rows \<Rightarrow> rows)"

text \<open>\<open>execute_non_query\<close> on the target connection.\<close>

definition execute_non_query :: "'db driver \<Rightarrow> 'db world \<Rightarrow> string \<Rightarrow> bool \<times> 'db world" where
  "execute_non_query drv w query =
     (case drv_execute drv (target w) query of
        (ok, t') \<Rightarrow> (ok, emit [ExecNonQuery query ok] (w\<lparr>target := t'\<rparr>)))"

section \<open>schema_validator.py\<close>

definition get_table_schema :: "'db driver \<Rightarrow> 'db \<Rightarrow> string \<Rightarrow> column list" where
  "get_table_schema drv conn table_name = drv_user_tab_columns drv conn (upper table_name)"

definition table_exists :: "'db driver \<Rightarrow> 'db \<Rightarrow> string \<Rightarrow> bool" where
  "table_exists drv conn table_name =
     (case drv_user_tables_count drv conn (upper table_name) of
        None \<Rightarrow> False
      | Some n \<Rightarrow> n > 0)"

text \<open>The loop of \<open>schemas_match\<close> over \<open>zip(source_schema, target_schema)\<close>.\<close>

fun columns_agree :: "column list \<Rightarrow> column list \<Rightarrow> bool" where
  "columns_agree (s_col # ss) (t_col # ts) =
     (if name s_col \<noteq> name t_col \<or>
         data_type s_col \<noteq> data_type t_col \<or>
         data_length s_col \<noteq> data_length t_col \<or>
         data_precision s_col \<noteq> data_precision t_col \<or>
         data_scale s_col \<noteq> data_scale t_col
      then False
      else columns_agree ss ts)"
| "columns_agree ss ts = True"

definition schemas_match :: "'db driver \<Rightarrow> 'db world \<Rightarrow> string \<Rightarrow> bool" where
  "schemas_match drv w table_name =
     (if \<not> table_exists drv (source w) table_name then False
      else if \<not> table_exists drv (target w) table_name then False
      else
        (let source_schema = get_table_schema drv (source w) table_name;
             target_schema = get_table_schema drv (target w) table_name
         in if length source_schema \<noteq> length target_schema then False
            else columns_agree source_schema target_schema))"

text \<open>An f-string field holding an optional int prints \<open>None\<close> for \<open>None\<close>.\<close>

definition fmt_opt_int :: "int option \<Rightarrow> string" where
  "fmt_opt_int x = (case x of None \<Rightarrow> ''None'' | Some i \<Rightarrow> str_int i)"

definition column_clause :: "column \<Rightarrow> string" where
  "column_clause col =
     (let col_def = name col @ '' '' @ data_type col;
          col_def =
            (if data_type col = ''NUMBER'' \<and> data_precision col \<noteq> None then
               (case data_scale col of
                  Some sc \<Rightarrow>
                    (if sc \<noteq> 0 \<and> sc > 0
                     then col_def @ ''('' @ fmt_opt_int (data_precision col) @ '','' @ str_int sc @ '')''
                     else col_def @ ''('' @ fmt_opt_int (data_precision col) @ '')'')
                | None \<Rightarrow> col_def @ ''('' @ fmt_opt_int (data_precision col) @ '')'')
             else if data_type col = ''VARCHAR2'' \<or> data_type col = ''CHAR'' then
               col_def @ ''('' @ fmt_opt_int (data_length col) @ '')''
             else if data_type col = ''RAW'' then
               (let size = (case data_length col of None \<Rightarrow> 2000 | Some l \<Rightarrow> l)
                in col_def @ ''('' @ str_int size @ '')'')
             else col_def);
          col_def = (if nullable col = ''N'' then col_def @ '' NOT NULL'' else col_def)
      in ''    '' @ col_def @ '','')"

text \<open>\<open>s.rstrip(',')\<close>.\<close>

definition rstrip_comma :: "string \<Rightarrow> string" where
  "rstrip_comma s = rev (dropWhile (\<lambda>c. c = CHR '','') (rev s))"

definition generate_create_table_sql :: "'db driver \<Rightarrow> 'db world \<Rightarrow> string \<Rightarrow> string" where
  "generate_create_table_sql drv w table_name =
     (let columns = get_table_schema drv (source w) table_name
      in if columns = [] then []
         else
           (let sql_parts = (''CREATE TABLE '' @ table_name @ '' ('') # map column_clause columns;
                sql_parts = butlast sql_parts @ [rstrip_comma (last sql_parts)];
                sql_parts = sql_parts @ ['')'']
            in join [CHR 0x0A] sql_parts))"

definition drop_table :: "'db driver \<Rightarrow> 'db world \<Rightarrow> string \<Rightarrow> bool \<times> 'db world" where
  "drop_table drv w table_name = execute_non_query drv w (''DROP TABLE '' @ table_name)"

definition create_table :: "'db driver \<Rightarrow> 'db world \<Rightarrow> string \<Rightarrow> bool \<times> 'db world" where
  "create_table drv w table_name =
     (let create_sql = generate_create_table_sql drv w table_name
      in if create_sql = [] then (False, w)
         else execute_non_query drv w create_sql)"

section \<open>oracle_handler.py\<close>

text \<open>\<open>s.split(',')\<close>: an empty text gives one empty field.\<close>

fun split_on :: "char \<Rightarrow> string \<Rightarrow> string list" where
  "split_on d [] = [[]]"
| "split_on d (c # cs) =
     (if c = d then [] # split_on d cs
      else (case split_on d cs of
              [] \<Rightarrow> [[c]]
            | x # xs \<Rightarrow> (c # x) # xs))"

definition get_table_indexes :: "'db driver \<Rightarrow> 'db \<Rightarrow> string \<Rightarrow> index_definition list" where
  "get_table_indexes drv conn table_name =
     map (\<lambda>(r0, r1, r2, r3, r4).
            \<lparr>ix_name = r0, ix_table_name = r1, ix_columns = split_on CHR '','' r4,
             ix_is_unique = (r2 = ''UNIQUE''), ix_tablespace_name = r3\<rparr>)
         (drv_user_indexes drv conn (upper table_name))"

text \<open>
  \<open>s.replace(old, new)\<close>: every non-overlapping occurrence of \<open>old\<close>, scanning from the
  left; an empty \<open>old\<close> matches before every character and at the end.
\<close>

function replace_scan :: "string \<Rightarrow> string \<Rightarrow> string \<Rightarrow> string" where
  "replace_scan old new s =
     (if s = [] then []
      else if old \<noteq> [] \<and> take (length old) s = old
           then new @ replace_scan old new (drop (length old) s)
           else hd s # replace_scan old new (tl s))"
  by pat_completeness auto
termination
  by (relation "measure (\<lambda>(old, new, s). length s)") auto

definition py_replace :: "string \<Rightarrow> string \<Rightarrow> string \<Rightarrow> string" where
  "py_replace s old new =
     (if old = [] then new @ concat (map (\<lambda>c. c # new) s)
      else replace_scan old new s)"

text \<open>The name the regenerated index gets (the branch inside \<open>generate_index_ddl\<close>).\<close>

definition new_index_name :: "index_definition \<Rightarrow> string \<Rightarrow> string" where
  "new_index_name index target_table =
     (if length target_table = length (ix_table_name index) then ix_name index
      else (let base_name = py_replace (ix_name index) (ix_table_name index) target_table
            in take 30 base_name))"

definition generate_index_ddl :: "index_definition \<Rightarrow> string \<Rightarrow> string" where
  "generate_index_ddl index target_table =
     (let columns = join '', '' (ix_columns index);
          ddl = ''CREATE '' @ (if ix_is_unique index then ''UNIQUE '' else []) @ ''INDEX ''
                @ new_index_name index target_table @ '' '';
          ddl = ddl @ ''ON '' @ target_table @ '' ('' @ columns @ '')''
      in ddl)"

definition create_index :: "'db driver \<Rightarrow> 'db world \<Rightarrow> string \<Rightarrow> bool \<times> 'db world" where
  "create_index drv w index_ddl =
     (if index_ddl = [] then (False, w)
      else execute_non_query drv w index_ddl)"

text \<open>
  The name the specification describes: unchanged for equal lengths, otherwise the
  owning table's name substituted and the result cut to the 30 characters of an
  identifier.
\<close>

definition spec_index_name :: "string \<Rightarrow> string \<Rightarrow> string \<Rightarrow> string" where
  "spec_index_name nm owner target_table =
     (if length target_table = length owner then nm
      else take 30 (py_replace nm owner target_table))"

section \<open>migrator.py\<close>

record migrator =
  migrate_indexes_globally :: pyval

text \<open>Truth value of a Python object in an \<open>if\<close>.\<close>

fun py_truthy :: "pyval \<Rightarrow> bool" where
  "py_truthy PNone = False"
| "py_truthy (PStr s) = (s \<noteq> [])"
| "py_truthy (PInt i) = (i \<noteq> 0)"
| "py_truthy (PBool b) = b"
| "py_truthy (POther s) = True"

text \<open>
  The constructor has three required positional parameters. A call that leaves
  \<open>migration_settings\<close> out (\<open>None\<close> here) raises \<open>TypeError\<close>.
\<close>

definition TableMigrator_init :: "(string \<rightharpoonup> pyval) option \<Rightarrow> py_error + migrator" where
  "TableMigrator_init migration_settings =
     (case migration_settings of
        None \<Rightarrow> Inl TypeError
      | Some settings \<Rightarrow>
          Inr \<lparr>migrate_indexes_globally =
                 (case settings ''migrate_indexes_globally'' of
                    None \<Rightarrow> PBool False
                  | Some v \<Rightarrow> v)\<rparr>)"

definition is_digit :: "char \<Rightarrow> bool" where
  "is_digit c = (let n = (of_char c :: nat) in 48 \<le> n \<and> n \<le> 57)"

definition is_space :: "char \<Rightarrow> bool" where
  "is_space c = (let n = (of_char c :: nat) in n = 32 \<or> (9 \<le> n \<and> n \<le> 13) \<or> (28 \<le> n \<and> n \<le> 31))"

definition strip :: "string \<Rightarrow> string" where
  "strip s = rev (dropWhile is_space (rev (dropWhile is_space s)))"

text \<open>
  Whether \<open>re.match\<close> finds the timestamp pattern at the start of the type name: the
  word TIMESTAMP, an opening parenthesis, one or more digits, a closing parenthesis.
\<close>

definition timestamp_match :: "string \<Rightarrow> bool" where
  "timestamp_match dtype =
     (take 10 dtype = ''TIMESTAMP('' \<and>
      (let rest = drop 10 dtype; after = dropWhile is_digit rest
       in takeWhile is_digit rest \<noteq> [] \<and> take 1 after = '')''))"

definition get_column_type :: "string \<Rightarrow> db_type" where
  "get_column_type dtype =
     (if timestamp_match dtype then DB_TYPE_TIMESTAMP
      else
        (let base_type = strip (takeWhile (\<lambda>c. c \<noteq> CHR ''('') dtype)
         in if base_type = ''NUMBER'' then DB_TYPE_NUMBER
            else if base_type = ''VARCHAR2'' then DB_TYPE_VARCHAR
            else if base_type = ''CHAR'' then DB_TYPE_CHAR
            else if base_type = ''DATE'' then DB_TYPE_DATE
            else if base_type = ''TIMESTAMP'' then DB_TYPE_TIMESTAMP
            else if base_type = ''CLOB'' then DB_TYPE_CLOB
            else if base_type = ''BLOB'' then DB_TYPE_BLOB
            else if base_type = ''RAW'' then DB_TYPE_RAW
            else if base_type = ''LONG'' then DB_TYPE_LONG
            else DB_TYPE_VARCHAR))"

text \<open>
  The effective custom query: \<open>None\<close> and the empty text are both false in an \<open>if\<close>.
\<close>

definition query_given :: "string option \<Rightarrow> string option" where
  "query_given custom_query =
     (case custom_query of None \<Rightarrow> None | Some q \<Rightarrow> if q = [] then None else Some q)"

text \<open>
  \<open>get_row_count\<close>: whatever goes wrong inside (no result row, an empty row) leaves as one
  exception.
\<close>

definition get_row_count :: "'db driver \<Rightarrow> 'db world \<Rightarrow> string \<Rightarrow> string option \<Rightarrow> py_error + pyval" where
  "get_row_count drv w table_name custom_query =
     (let count_query =
            (case query_given custom_query of
               Some q \<Rightarrow> ''SELECT COUNT(*) FROM ('' @ q @ '')''
             | None \<Rightarrow> ''SELECT COUNT(*) FROM '' @ table_name);
          result = execute_query drv (source w) count_query
      in case result of
           [] \<Rightarrow> Inl RowCountError
         | r # rs \<Rightarrow> (case r of [] \<Rightarrow> Inl RowCountError | v # vs \<Rightarrow> Inr v))"

text \<open>\<open>row_count == 0\<close>.\<close>

fun py_eq_zero :: "pyval \<Rightarrow> bool" where
  "py_eq_zero (PInt i) = (i = 0)"
| "py_eq_zero (PBool b) = (\<not> b)"
| "py_eq_zero v = False"

definition prepare_insert_statement :: "string \<Rightarrow> string list \<Rightarrow> string" where
  "prepare_insert_statement table_name column_names =
     (let placeholders = join '', '' (map (\<lambda>i. '':'' @ str_nat (i + 1)) [0..<length column_names]);
          columns = join '', '' column_names
      in ''INSERT INTO '' @ table_name @ '' ('' @ columns @ '') VALUES ('' @ placeholders @ '')'')"

text \<open>The query text \<open>get_data\<close> hands to the chunk generator.\<close>

definition get_data_query :: "string \<Rightarrow> string option \<Rightarrow> string" where
  "get_data_query table_name custom_query =
     (case query_given custom_query of
        Some q \<Rightarrow> q
      | None \<Rightarrow> ''SELECT * FROM '' @ table_name)"

subsection \<open>The chunk generator\<close>

text \<open>
  A cursor is the list of rows not fetched yet; \<open>fetchmany(k)\<close> hands out the next \<open>k\<close>
  of them, fewer when fewer are left, none when none is left.
\<close>

definition fetchmany :: "nat \<Rightarrow> row list \<Rightarrow> row list \<times> row list" where
  "fetchmany k cur = (take k cur, drop k cur)"

text \<open>
  The first lines of \<open>_get_data_in_chunks\<close>, run by the first \<open>next()\<close>: a cursor on the
  source connection, its \<open>arraysize\<close>, and the query. Executing the query can raise, and
  nothing in the generator catches that.
\<close>

definition gen_start :: "'db driver \<Rightarrow> 'db world \<Rightarrow> string \<Rightarrow> nat \<Rightarrow> py_error + (row list \<times> 'db world)" where
  "gen_start drv w query chunk_size =
     (case drv_select drv (source w) query of
        None \<Rightarrow> Inl DriverError
      | Some rows \<Rightarrow> Inr (rows, emit [CursorOpen query chunk_size] w))"

text \<open>
  One turn of the \<open>while True\<close> loop: either the generator yields a chunk and stays
  suspended at \<open>yield\<close> with the remaining cursor, or the fetch is empty, the loop breaks,
  the cursor is closed and the generator is exhausted (\<open>None\<close>).
\<close>

definition gen_resume :: "nat \<Rightarrow> row list \<Rightarrow> 'db world \<Rightarrow> (row list \<times> row list) option \<times> 'db world" where
  "gen_resume chunk_size cur w =
     (case fetchmany chunk_size cur of
        (rows, cur') \<Rightarrow>
          if rows = [] then (None, emit [FetchMany chunk_size 0, CursorClose] w)
          else (Some (rows, cur'), emit [FetchMany chunk_size (length rows)] w))"

text \<open>Iterating the generator to its end, as \<open>list(...)\<close> does.\<close>

function gen_drain :: "nat \<Rightarrow> row list \<Rightarrow> 'db world \<Rightarrow> row list list \<times> 'db world" where
  "gen_drain chunk_size cur w =
     (case gen_resume chunk_size cur w of
        (None, w1) \<Rightarrow> ([], w1)
      | (Some (rows, cur'), w1) \<Rightarrow>
          (case gen_drain chunk_size cur' w1 of
             (chunks, w2) \<Rightarrow> (rows # chunks, w2)))"
  by pat_completeness auto
termination
  by (relation "measure (\<lambda>(k, cur, w). length cur)")
     (auto simp: gen_resume_def fetchmany_def split: if_splits)

definition get_data_in_chunks :: "'db driver \<Rightarrow> 'db world \<Rightarrow> string \<Rightarrow> nat \<Rightarrow> py_error + (row list list \<times> 'db world)" where
  "get_data_in_chunks drv w query chunk_size =
     (case gen_start drv w query chunk_size of
        Inl e \<Rightarrow> Inl e
      | Inr (cur, w1) \<Rightarrow> Inr (gen_drain chunk_size cur w1))"

subsection \<open>The copy loop of migrate_table\<close>

text \<open>
  \<open>for chunk in data_chunks\<close> with its body. The result is \<open>False\<close> when a batch made the
  loop return early (after the rollback), \<open>True\<close> when the generator was exhausted; the
  number is \<open>rows_processed\<close>.
\<close>

function copy_loop :: "'db driver \<Rightarrow> string \<Rightarrow> column list \<Rightarrow> nat \<Rightarrow> row list \<Rightarrow> 'db world \<Rightarrow> nat \<Rightarrow> bool \<times> 'db world \<times> nat" where
  "copy_loop drv insert_stmt column_types chunk_size cur w rows_processed =
     (case gen_resume chunk_size cur w of
        (None, w1) \<Rightarrow> (True, w1, rows_processed)
      | (Some (chunk, cur'), w1) \<Rightarrow>
          (let converted_chunk = map (\<lambda>r. convert_row_values r column_types) chunk
           in case drv_executemany drv (target w1) insert_stmt converted_chunk of
                (inserted, t1) \<Rightarrow>
                  (let w2 = emit [ExecuteMany insert_stmt converted_chunk] (w1\<lparr>target := t1\<rparr>)
                   in if \<not> inserted
                      then (False, emit [Rollback] (w2\<lparr>target := drv_rollback drv (target w2)\<rparr>), rows_processed)
                      else
                        (case drv_commit drv (target w2) of
                           (committed, t2) \<Rightarrow>
                             (let w3 = emit [Commit] (w2\<lparr>target := t2\<rparr>)
                              in if \<not> committed
                                 then (False, emit [Rollback] (w3\<lparr>target := drv_rollback drv (target w3)\<rparr>), rows_processed)
                                 else copy_loop drv insert_stmt column_types chunk_size cur' w3
                                        (rows_processed + length chunk))))))"
  by pat_completeness auto
termination
  by (relation "measure (\<lambda>(drv, stmt, cols, k, cur, w, n). length cur)")
     (auto simp: gen_resume_def fetchmany_def split: if_splits)

subsection \<open>Index replication\<close>

text \<open>
  The \<open>for index in indexes\<close> loop of \<open>_migrate_indexes_for_table\<close>, with the flag
  \<open>success\<close> it carries. \<open>generate_index_ddl\<close> and \<open>create_index\<close> catch their own
  exceptions, so the inner handler has nothing to catch.
\<close>

fun index_loop :: "'db driver \<Rightarrow> 'db world \<Rightarrow> string \<Rightarrow> index_definition list \<Rightarrow> bool \<Rightarrow> bool \<times> 'db world" where
  "index_loop drv w target_table [] success = (success, w)"
| "index_loop drv w target_table (index # rest) success =
     (let ddl = generate_index_ddl index target_table
      in if ddl = [] then index_loop drv w target_table rest False
         else
           (case create_index drv w ddl of
              (created, w1) \<Rightarrow>
                if \<not> created then index_loop drv w1 target_table rest False
                else index_loop drv w1 target_table rest success))"

definition migrate_indexes_for_table :: "'db driver \<Rightarrow> 'db world \<Rightarrow> string \<Rightarrow> string \<Rightarrow> bool \<times> 'db world" where
  "migrate_indexes_for_table drv w source_table target_table =
     (let indexes = get_table_indexes drv (source w) source_table
      in if indexes = [] then (True, w)
         else index_loop drv w target_table indexes True)"

subsection \<open>migrate_table\<close>

text \<open>
  The block \<open>if not table_exists: create\<close>, reached with the current value of the
  variable \<open>table_exists\<close>. The result says whether the function goes on.
\<close>

definition create_if_missing :: "'db driver \<Rightarrow> 'db world \<Rightarrow> string \<Rightarrow> bool \<Rightarrow> bool \<times> 'db world" where
  "create_if_missing drv w table_name exists =
     (if \<not> exists then
        (case create_table drv w table_name of
           (created, w1) \<Rightarrow> if \<not> created then (False, w1) else (True, w1))
      else (True, w))"

text \<open>
  The first half of \<open>migrate_table\<close>, up to the creation of the table: \<open>False\<close> is an
  early \<open>return False\<close>.
\<close>

definition reconcile :: "'db driver \<Rightarrow> 'db world \<Rightarrow> string \<Rightarrow> string \<Rightarrow> bool \<times> 'db world" where
  "reconcile drv w table_name existing_table_behavior =
     (let exists = table_exists drv (target w) table_name;
          matching = (if exists then schemas_match drv w table_name else False)
      in if exists then
           (if existing_table_behavior = ''drop_and_recreate'' then
              (case drop_table drv w table_name of
                 (dropped, w1) \<Rightarrow>
                   if \<not> dropped then (False, w1)
                   else create_if_missing drv w1 table_name False)
            else if existing_table_behavior = ''append_if_compatible'' then
              (if \<not> matching then (False, w)
               else create_if_missing drv w table_name exists)
            else (False, w))
         else create_if_missing drv w table_name exists)"

text \<open>
  The second half: row count, INSERT statement, chunked copy, indexes. An exception
  that nothing here catches (the cursor's query failing) leaves as \<open>Inl\<close>.
\<close>

definition copy_data :: "'db driver \<Rightarrow> migrator \<Rightarrow> 'db world \<Rightarrow> string \<Rightarrow> string \<Rightarrow> string option \<Rightarrow> nat \<Rightarrow> (py_error + bool) \<times> 'db world" where
  "copy_data drv self w table_name mode custom_query chunk_size =
     (let effective = (if mode = ''custom'' then query_given custom_query else None)
      in case get_row_count drv w table_name effective of
           Inl e \<Rightarrow> (Inr False, w)
         | Inr row_count \<Rightarrow>
             if py_eq_zero row_count then (Inr True, w)
             else
               (let column_types = get_table_schema drv (source w) table_name;
                    column_names = map name column_types;
                    insert_stmt = prepare_insert_statement table_name column_names;
                    input_types = map (\<lambda>col. get_column_type (data_type col)) column_types;
                    w1 = emit [SetInputSizes input_types] w
                in case gen_start drv w1 (get_data_query table_name effective) chunk_size of
                     Inl e \<Rightarrow> (Inl e, w1)
                   | Inr (cur, w2) \<Rightarrow>
                       (case copy_loop drv insert_stmt column_types chunk_size cur w2 0 of
                          (finished, w3, rows_processed) \<Rightarrow>
                            if \<not> finished then (Inr False, w3)
                            else if py_truthy (migrate_indexes_globally self) then
                              (case migrate_indexes_for_table drv w3 table_name table_name of
                                 (indexes_ok, w4) \<Rightarrow> (Inr True, w4))
                            else (Inr True, w3))))"

definition migrate_table :: "'db driver \<Rightarrow> migrator \<Rightarrow> 'db world \<Rightarrow> string \<Rightarrow> string \<Rightarrow> string option \<Rightarrow> string \<Rightarrow> nat \<Rightarrow> (py_error + bool) \<times> 'db world" where
  "migrate_table drv self w table_name mode custom_query existing_table_behavior chunk_size =
     (case reconcile drv w table_name existing_table_behavior of
        (proceed, w1) \<Rightarrow>
          if \<not> proceed then (Inr False, w1)
          else copy_data drv self w1 table_name mode custom_query chunk_size)"

section \<open>config_loader.py and main.py\<close>

text \<open>
  One entry of the \<open>tables\<close> list of the configuration file, and the file itself. A key
  that is absent from the entry is \<open>None\<close>.
\<close>

record table_config =
  tc_name :: string
  tc_mode :: "string option"
  tc_query :: "string option"
  tc_existing_table_behavior :: "string option"
  tc_chunk_size :: "nat option"

record config =
  cfg_tables :: "table_config list"
  cfg_default_chunk_size :: "nat option"

definition get_default_chunk_size :: "config \<Rightarrow> nat" where
  "get_default_chunk_size cfg = (case cfg_default_chunk_size cfg of None \<Rightarrow> 10000 | Some k \<Rightarrow> k)"

definition get_table_config :: "config \<Rightarrow> string \<Rightarrow> table_config option" where
  "get_table_config cfg table_name = find (\<lambda>t. tc_name t = table_name) (cfg_tables cfg)"

definition get_table_chunk_size :: "config \<Rightarrow> string \<Rightarrow> nat" where
  "get_table_chunk_size cfg table_name =
     (let default_size = get_default_chunk_size cfg
      in case get_table_config cfg table_name of
           None \<Rightarrow> default_size
         | Some tc \<Rightarrow> (case tc_chunk_size tc of None \<Rightarrow> default_size | Some k \<Rightarrow> k))"

text \<open>
  The loop of \<open>main\<close> over the configured tables, with its two counters. An exception
  out of \<open>migrate_table\<close> ends the loop and reaches the handler of \<open>main\<close>.
\<close>

fun process_tables :: "'db driver \<Rightarrow> migrator \<Rightarrow> config \<Rightarrow> table_config list \<Rightarrow> 'db world \<Rightarrow> nat \<Rightarrow> nat \<Rightarrow> (py_error + (nat \<times> nat)) \<times> 'db world" where
  "process_tables drv migrator cfg [] w success_count fail_count = (Inr (success_count, fail_count), w)"
| "process_tables drv migrator cfg (tc # rest) w success_count fail_count =
     (let table_name = tc_name tc;
          mode = (case tc_mode tc of None \<Rightarrow> ''full'' | Some m \<Rightarrow> m);
          custom_query = (if mode = ''custom'' then tc_query tc else None);
          existing_table_behavior =
            (case tc_existing_table_behavior tc of None \<Rightarrow> ''drop_and_recreate'' | Some b \<Rightarrow> b);
          chunk_size = get_table_chunk_size cfg table_name
      in case migrate_table drv migrator w table_name mode custom_query existing_table_behavior chunk_size of
           (Inl e, w1) \<Rightarrow> (Inl e, w1)
         | (Inr ok, w1) \<Rightarrow>
             if ok then process_tables drv migrator cfg rest w1 (success_count + 1) fail_count
             else process_tables drv migrator cfg rest w1 success_count (fail_count + 1))"

text \<open>
  The part of \<open>main\<close> that follows the construction of the migrator: the table list,
  the loop, the summary and \<open>return 0 if fail_count == 0 else 1\<close>. An exception out of
  the loop reaches the handler \<open>except Exception\<close>, which returns 1.
\<close>

definition run_tables :: "'db driver \<Rightarrow> migrator \<Rightarrow> config \<Rightarrow> 'db world \<Rightarrow> int \<times> 'db world" where
  "run_tables drv migrator cfg w =
     (let tables_config = cfg_tables cfg
      in if tables_config = [] then (0, w)
         else
           (case process_tables drv migrator cfg tables_config w 0 0 of
              (Inl e, w1) \<Rightarrow> (1, w1)
            | (Inr (success_count, fail_count), w1) \<Rightarrow>
                (if fail_count = 0 then 0 else 1, w1)))"

text \<open>
  \<open>main\<close> returns the exit code of the process. Its inputs are the configuration
  (\<open>None\<close> when loading it raises) and whether each \<open>connect()\<close> succeeds. The migrator
  is built by \<open>TableMigrator(source_db, target_db)\<close>, a call with no
  \<open>migration_settings\<close> argument; the handler \<open>except Exception\<close> turns every exception
  into exit code 1.
\<close>

definition main :: "'db driver \<Rightarrow> config option \<Rightarrow> bool \<Rightarrow> bool \<Rightarrow> 'db world \<Rightarrow> int \<times> 'db world" where
  "main drv loaded source_connects target_connects w =
     (case loaded of
        None \<Rightarrow> (1, w)
      | Some cfg \<Rightarrow>
          if \<not> source_connects then (1, w)
          else if \<not> target_connects then (1, w)
          else
            (case TableMigrator_init None of
               Inl e \<Rightarrow> (1, w)
             | Inr migrator \<Rightarrow> run_tables drv migrator cfg w))"

section \<open>A small database for concrete runs\<close>

text \<open>
  A database whose dictionary and query results are fixed tables and which refuses
  exactly the statements listed in \<open>refused\<close>; a bulk insert is refused when its first
  bound tuple is listed in \<open>bad_rows\<close>.
\<close>

record demo_db =
  dict_tables :: "(string \<times> column list) list"
  dict_indexes :: "(string \<times> index_row list) list"
  results :: "(string \<times> row list) list"
  refused :: "string list"
  bad_rows :: "row list"
  stored :: "row list"

definition demo_driver :: "demo_db driver" where
  "demo_driver =
     \<lparr>drv_user_tables_count =
        (\<lambda>db t. Some (if map_of (dict_tables db) t = None then 0 else 1)),
      drv_user_tab_columns =
        (\<lambda>db t. case map_of (dict_tables db) t of None \<Rightarrow> [] | Some cols \<Rightarrow> cols),
      drv_user_indexes =
        (\<lambda>db t. case map_of (dict_indexes db) t of None \<Rightarrow> [] | Some ixs \<Rightarrow> ixs),
      drv_select = (\<lambda>db q. map_of (results db) q),
      drv_execute = (\<lambda>db stmt. (stmt \<notin> set (refused db), db)),
      drv_executemany =
        (\<lambda>db stmt rows.
           if rows \<noteq> [] \<and> hd rows \<in> set (bad_rows db) then (False, db)
           else (True, db\<lparr>stored := stored db @ rows\<rparr>)),
      drv_commit = (\<lambda>db. (True, db)),
      drv_rollback = (\<lambda>db. db)\<rparr>"

definition empty_db :: demo_db where
  "empty_db = \<lparr>dict_tables = [], dict_indexes = [], results = [], refused = [], bad_rows = [], stored = []\<rparr>"

definition col :: "string \<Rightarrow> string \<Rightarrow> int option \<Rightarrow> column" where
  "col n t l = \<lparr>name = n, data_type = t, data_length = l, data_precision = None,
                data_scale = None, nullable = ''Y''\<rparr>"

text \<open>Worlds for concrete runs: a source table \<open>T\<close> with three rows and two indexes.\<close>

definition three_rows :: "row list" where
  "three_rows = [[PInt 1, PStr ''a''], [PInt 2, PInt 5], [PNone, PStr ''c'']]"

definition t_columns :: "column list" where
  "t_columns = [col ''ID'' ''NUMBER'' (Some 22), col ''NAME'' ''VARCHAR2'' (Some 10)]"

definition demo_source :: demo_db where
  "demo_source = empty_db
     \<lparr>dict_tables := [(''T'', t_columns)],
      dict_indexes := [(''T'', [(''IDX_T_ID'', ''T'', ''UNIQUE'', None, ''ID''),
                               (''IDX_T_NAME'', ''T'', ''NONUNIQUE'', None, ''NAME,ID'')])],
      results := [(''SELECT COUNT(*) FROM T'', [[PInt 3]]), (''SELECT * FROM T'', three_rows)]\<rparr>"

definition demo_world :: "demo_db \<Rightarrow> demo_db world" where
  "demo_world tgt = \<lparr>source = demo_source, target = tgt, log = []\<rparr>"

text \<open>A target that already holds \<open>T\<close> with the given columns.\<close>

definition target_with :: "column list \<Rightarrow> demo_db" where
  "target_with cols = empty_db\<lparr>dict_tables := [(''T'', cols)]\<rparr>"

definition plain_migrator :: migrator where
  "plain_migrator = \<lparr>migrate_indexes_globally = PBool False\<rparr>"


text \<open>
  A source whose table \<open>T\<close> has a column created under the quoted name \<open>"id"\<close>, and a
  target that holds \<open>T\<close> with the column \<open>ID\<close>: the name an unquoted \<open>id\<close> has in
  the dictionary, before and after the table is created again from the generated DDL.
\<close>

definition quoted_source :: demo_db where
  "quoted_source = empty_db
     \<lparr>dict_tables := [(''T'', [col ''id'' ''NUMBER'' (Some 22)])],
      results := [(''SELECT COUNT(*) FROM T'', [[PInt 1]]), (''SELECT * FROM T'', [[PInt 7]])]\<rparr>"

definition quoted_world :: "demo_db world" where
  "quoted_world = \<lparr>source = quoted_source, target = target_with [col ''ID'' ''NUMBER'' (Some 22)], log = []\<rparr>"


definition rejecting_rows :: "row list \<Rightarrow> demo_db \<Rightarrow> demo_db" where
  "rejecting_rows rs db = db\<lparr>bad_rows := rs\<rparr>"

text \<open>The same table with a wider \<open>NAME\<close> column.\<close>

definition wider_columns :: "column list" where
  "wider_columns = [col ''ID'' ''NUMBER'' (Some 22), col ''NAME'' ''VARCHAR2'' (Some 20)]"

section \<open>Reading the log\<close>

text \<open>A statement sent through \<open>execute_non_query\<close>: table and index DDL.\<close>

fun is_ddl :: "event \<Rightarrow> bool" where
  "is_ddl (ExecNonQuery sql ok) = True"
| "is_ddl e = False"

section \<open>The reconciliation table of the specification\<close>





section \<open>Properties\<close>

declare gen_drain.simps [simp del]

declare copy_loop.simps [simp del]

subsection \<open>Bookkeeping of the log\<close>

lemma ceil_step:
  assumes "0 < k" "0 < n"
  shows "(n + k - 1) div k = Suc ((n - k + k - 1) div (k::nat))"
proof (cases "n \<le> k")
  case True
  have e: "n + k - 1 = (n - 1) + k" using assms by arith
  have "(n + k - 1) div k = (n - 1) div k + 1"
    unfolding e using assms(1) by (simp only: div_add_self2)
  moreover have "(n - 1) div k = 0" using True assms by simp
  moreover have "n - k + k - 1 = k - 1" using True by arith
  moreover have "(k - 1) div k = 0" using assms by simp
  ultimately show ?thesis by simp
next
  case False
  have e: "n + k - 1 = (n - 1) + k" using assms by arith
  have "(n + k - 1) div k = (n - 1) div k + 1"
    unfolding e using assms(1) by (simp only: div_add_self2)
  moreover have "n - k + k - 1 = n - 1" using False by arith
  ultimately show ?thesis by simp
qed



lemma log_emit [simp]: "log (emit es w) = log w @ es"
  by (simp add: emit_def)

lemma source_emit [simp]: "source (emit es w) = source w"
  by (simp add: emit_def)

lemma target_emit [simp]: "target (emit es w) = target w"
  by (simp add: emit_def)

lemma new_events_append: "log w' = log w @ es \<Longrightarrow> new_events w w' = es"
  by (simp add: new_events_def)

lemma take_empty_iff: "take k cur = [] \<longleftrightarrow> k = 0 \<or> cur = []"
  by (cases cur; cases k) auto

lemma gen_drain_empty:
  "take k cur = [] \<Longrightarrow> gen_drain k cur w = ([], emit [FetchMany k 0, CursorClose] w)"
  by (subst gen_drain.simps) (simp add: gen_resume_def fetchmany_def)

lemma gen_drain_step:
  "take k cur \<noteq> [] \<Longrightarrow>
   gen_drain k cur w =
     (take k cur # fst (gen_drain k (drop k cur) (emit [FetchMany k (length (take k cur))] w)),
      snd (gen_drain k (drop k cur) (emit [FetchMany k (length (take k cur))] w)))"
  by (subst gen_drain.simps) (simp add: gen_resume_def fetchmany_def split: prod.splits)



lemma gen_drain_Nil: "gen_drain k [] w = ([], emit [FetchMany k 0, CursorClose] w)"
  by (simp add: gen_drain_empty)

lemma gen_drain_Cons_fst:
  assumes "0 < k" "cur \<noteq> []"
  shows "fst (gen_drain k cur w) = take k cur # fst (gen_drain k (drop k cur) (emit [FetchMany k (length (take k cur))] w))"
proof -
  from assms have ne: "take k cur \<noteq> []" by (simp add: take_empty_iff)
  show ?thesis using gen_drain_step[OF ne, of w] by simp
qed

lemma gen_drain_Cons_snd:
  assumes "0 < k" "cur \<noteq> []"
  shows "snd (gen_drain k cur w) = snd (gen_drain k (drop k cur) (emit [FetchMany k (length (take k cur))] w))"
proof -
  from assms have ne: "take k cur \<noteq> []" by (simp add: take_empty_iff)
  show ?thesis using gen_drain_step[OF ne, of w] by simp
qed

lemma gen_drain_concat:
  assumes "0 < k"
  shows "concat (fst (gen_drain k cur w)) = cur"
proof (induction "length cur" arbitrary: cur w rule: less_induct)
  case less
  show ?case
  proof (cases "cur = []")
    case True
    then show ?thesis by (simp add: gen_drain_Nil)
  next
    case False
    have step: "length (drop k cur) < length cur"
      "fst (gen_drain k cur w) = take k cur # fst (gen_drain k (drop k cur) (emit [FetchMany k (length (take k cur))] w))"
      "snd (gen_drain k cur w) = snd (gen_drain k (drop k cur) (emit [FetchMany k (length (take k cur))] w))"
      using assms False gen_drain_Cons_fst[OF assms False, of w] gen_drain_Cons_snd[OF assms False, of w]
      by simp_all
    show ?thesis using less[OF step(1)] step(2) by simp
  qed
qed

lemma gen_drain_chunks_nonempty:
  assumes "0 < k"
  shows "c \<in> set (fst (gen_drain k cur w)) \<Longrightarrow> c \<noteq> [] \<and> length c \<le> k"
proof (induction "length cur" arbitrary: cur w rule: less_induct)
  case less
  show ?case
  proof (cases "cur = []")
    case True
    then show ?thesis using less.prems by (simp add: gen_drain_Nil)
  next
    case False
    have step: "length (drop k cur) < length cur"
      "fst (gen_drain k cur w) = take k cur # fst (gen_drain k (drop k cur) (emit [FetchMany k (length (take k cur))] w))"
      "snd (gen_drain k cur w) = snd (gen_drain k (drop k cur) (emit [FetchMany k (length (take k cur))] w))"
      using assms False gen_drain_Cons_fst[OF assms False, of w] gen_drain_Cons_snd[OF assms False, of w]
      by simp_all
    from less.prems step(2) have "c = take k cur \<or> c \<in> set (fst (gen_drain k (drop k cur) (emit [FetchMany k (length (take k cur))] w)))"
      by simp
    then show ?thesis
    proof
      assume "c = take k cur"
      then show ?thesis using False assms by (simp add: take_empty_iff)
    next
      assume "c \<in> set (fst (gen_drain k (drop k cur) (emit [FetchMany k (length (take k cur))] w)))"
      then show ?thesis using less.hyps[OF step(1)] by blast
    qed
  qed
qed

lemma gen_drain_length:
  assumes "0 < k"
  shows "length (fst (gen_drain k cur w)) = (length cur + k - 1) div k"
proof (induction "length cur" arbitrary: cur w rule: less_induct)
  case less
  show ?case
  proof (cases "cur = []")
    case True
    then show ?thesis using assms by (simp add: gen_drain_Nil)
  next
    case False
    have step: "length (drop k cur) < length cur"
      "fst (gen_drain k cur w) = take k cur # fst (gen_drain k (drop k cur) (emit [FetchMany k (length (take k cur))] w))"
      "snd (gen_drain k cur w) = snd (gen_drain k (drop k cur) (emit [FetchMany k (length (take k cur))] w))"
      using assms False gen_drain_Cons_fst[OF assms False, of w] gen_drain_Cons_snd[OF assms False, of w]
      by simp_all
    have "length (fst (gen_drain k cur w)) = Suc ((length (drop k cur) + k - 1) div k)"
      using less[OF step(1)] step(2) by simp
    also have "length (drop k cur) = length cur - k" by simp
    finally show ?thesis using ceil_step[OF assms, of "length cur"] False by simp
  qed
qed

lemma gen_drain_full_chunks:
  assumes "0 < k"
  shows "Suc i < length (fst (gen_drain k cur w)) \<Longrightarrow> length (fst (gen_drain k cur w) ! i) = k"
proof (induction "length cur" arbitrary: cur w i rule: less_induct)
  case less
  show ?case
  proof (cases "cur = []")
    case True
    then show ?thesis using less.prems by (simp add: gen_drain_Nil)
  next
    case False
    have step: "length (drop k cur) < length cur"
      "fst (gen_drain k cur w) = take k cur # fst (gen_drain k (drop k cur) (emit [FetchMany k (length (take k cur))] w))"
      "snd (gen_drain k cur w) = snd (gen_drain k (drop k cur) (emit [FetchMany k (length (take k cur))] w))"
      using assms False gen_drain_Cons_fst[OF assms False, of w] gen_drain_Cons_snd[OF assms False, of w]
      by simp_all
    let ?rest = "fst (gen_drain k (drop k cur) (emit [FetchMany k (length (take k cur))] w))"
    show ?thesis
    proof (cases i)
      case 0
      with less.prems step(2) have "?rest \<noteq> []" by auto
      then have "drop k cur \<noteq> []" by (auto simp: gen_drain_Nil)
      then have "k < length cur" by simp
      then show ?thesis using 0 step(2) by simp
    next
      case (Suc j)
      with less.prems step(2) have "Suc j < length ?rest" by simp
      from less.hyps[OF step(1) this] show ?thesis using Suc step(2) by simp
    qed
  qed
qed

lemma gen_drain_log:
  assumes "0 < k"
  shows "log (snd (gen_drain k cur w)) =
           log w @ map (\<lambda>c. FetchMany k (length c)) (fst (gen_drain k cur w)) @ [FetchMany k 0, CursorClose]"
proof (induction "length cur" arbitrary: cur w rule: less_induct)
  case less
  show ?case
  proof (cases "cur = []")
    case True
    then show ?thesis by (simp add: gen_drain_Nil)
  next
    case False
    have step: "length (drop k cur) < length cur"
      "fst (gen_drain k cur w) = take k cur # fst (gen_drain k (drop k cur) (emit [FetchMany k (length (take k cur))] w))"
      "snd (gen_drain k cur w) = snd (gen_drain k (drop k cur) (emit [FetchMany k (length (take k cur))] w))"
      using assms False gen_drain_Cons_fst[OF assms False, of w] gen_drain_Cons_snd[OF assms False, of w]
      by simp_all
    show ?thesis using less[OF step(1)] step(2) step(3) by simp
  qed
qed

lemma gen_drain_conns:
  assumes "0 < k"
  shows "source (snd (gen_drain k cur w)) = source w \<and> target (snd (gen_drain k cur w)) = target w"
proof (induction "length cur" arbitrary: cur w rule: less_induct)
  case less
  show ?case
  proof (cases "cur = []")
    case True
    then show ?thesis by (simp add: gen_drain_Nil)
  next
    case False
    have step: "length (drop k cur) < length cur"
      "fst (gen_drain k cur w) = take k cur # fst (gen_drain k (drop k cur) (emit [FetchMany k (length (take k cur))] w))"
      "snd (gen_drain k cur w) = snd (gen_drain k (drop k cur) (emit [FetchMany k (length (take k cur))] w))"
      using assms False gen_drain_Cons_fst[OF assms False, of w] gen_drain_Cons_snd[OF assms False, of w]
      by simp_all
    show ?thesis using less[OF step(1)] step(3) by simp
  qed
qed



subsection \<open>Batch completeness of the chunk generator\<close>

lemma demo_select: "drv_select demo_driver (source (demo_world tgt)) ''SELECT * FROM T'' = Some three_rows"
  by (simp add: demo_driver_def demo_world_def demo_source_def empty_db_def)

text \<open>
  C7. With a positive chunk size \<open>k\<close> and a query that yields \<open>n\<close> rows, iterating
  \<open>_get_data_in_chunks\<close> to its end returns \<open>ceil(n/k)\<close> chunks; every chunk but the last
  has exactly \<open>k\<close> rows, no chunk is empty or longer than \<open>k\<close>, the chunks put together
  are the rows of the query (so their sizes add up to \<open>n\<close> and nothing is padded), and
  the fetches made are one per chunk followed by a single empty fetch, after which the
  cursor is closed.
\<close>

theorem get_data_in_chunks_batches:
  assumes "0 < k" and "drv_select drv (source w) query = Some rows"
  shows "\<exists>chunks w'. get_data_in_chunks drv w query k = Inr (chunks, w')
     \<and> length chunks = (length rows + k - 1) div k
     \<and> (\<forall>i. Suc i < length chunks \<longrightarrow> length (chunks ! i) = k)
     \<and> (\<forall>c \<in> set chunks. c \<noteq> [] \<and> length c \<le> k)
     \<and> concat chunks = rows
     \<and> sum_list (map length chunks) = length rows
     \<and> new_events w w' =
          CursorOpen query k # map (\<lambda>c. FetchMany k (length c)) chunks @ [FetchMany k 0, CursorClose]"
proof -
  let ?w1 = "emit [CursorOpen query k] w"
  let ?chunks = "fst (gen_drain k rows ?w1)"
  let ?w' = "snd (gen_drain k rows ?w1)"
  have run: "get_data_in_chunks drv w query k = Inr (?chunks, ?w')"
    using assms(2) by (simp add: get_data_in_chunks_def gen_start_def)
  have cc: "concat ?chunks = rows" by (rule gen_drain_concat[OF assms(1)])
  have "length (concat ?chunks) = sum_list (map length ?chunks)" by (rule length_concat)
  then have sm: "sum_list (map length ?chunks) = length rows" using cc by simp
  have lg: "log ?w' = log w @ (CursorOpen query k # map (\<lambda>c. FetchMany k (length c)) ?chunks @ [FetchMany k 0, CursorClose])"
    using gen_drain_log[OF assms(1), of rows ?w1] by simp
  have ev: "new_events w ?w' =
          CursorOpen query k # map (\<lambda>c. FetchMany k (length c)) ?chunks @ [FetchMany k 0, CursorClose]"
    by (rule new_events_append[OF lg])
  have ln: "length ?chunks = (length rows + k - 1) div k" by (rule gen_drain_length[OF assms(1)])
  have fl: "\<forall>i. Suc i < length ?chunks \<longrightarrow> length (?chunks ! i) = k"
    using gen_drain_full_chunks[OF assms(1)] by blast
  have ne: "\<forall>c \<in> set ?chunks. c \<noteq> [] \<and> length c \<le> k"
    using gen_drain_chunks_nonempty[OF assms(1)] by blast
  show ?thesis using run ln fl ne cc sm ev by blast
qed

text \<open>The theorem at chunk size 2 on the three rows of \<open>T\<close>.\<close>

theorem get_data_in_chunks_batches_witness:
  "(0::nat) < 2 \<and> drv_select demo_driver (source (demo_world empty_db)) ''SELECT * FROM T'' = Some three_rows
   \<and> (\<exists>chunks w'. get_data_in_chunks demo_driver (demo_world empty_db) ''SELECT * FROM T'' 2 = Inr (chunks, w')
        \<and> length chunks = 2 \<and> concat chunks = three_rows
        \<and> new_events (demo_world empty_db) w' =
            CursorOpen ''SELECT * FROM T'' 2 # map (\<lambda>c. FetchMany 2 (length c)) chunks @ [FetchMany 2 0, CursorClose])"
proof -
  have pos: "(0::nat) < 2" by simp
  have len: "(length three_rows + 2 - 1) div 2 = (2::nat)" by (simp add: three_rows_def)
  from get_data_in_chunks_batches[OF pos demo_select, of empty_db]
  show ?thesis using pos demo_select len by auto
qed

subsection \<open>Value coercion\<close>

text \<open>
  C5, as the specification words it, fails: a non-textual value bound for a fixed-width
  character column (\<open>CHAR\<close>) is not turned into text.
\<close>

theorem convert_value_char_counterexample:
  "spec_character_type ''CHAR'' \<and> \<not> is_str (PInt 123) \<and> PInt 123 \<noteq> PNone
   \<and> convert_value (PInt 123) ''CHAR'' \<noteq> PStr (py_str (PInt 123))"
  by (simp add: spec_character_type_def convert_value_def)

text \<open>
  C5, amended. \<open>convert_value\<close> returns \<open>None\<close> for \<open>None\<close>; it returns the text of the value
  when the column type is exactly \<open>VARCHAR2\<close> and the value is not a \<open>str\<close>; in every other
  case, a \<open>CHAR\<close> column included, it returns the value unchanged.
\<close>

theorem convert_value_cases:
  "convert_value PNone t = PNone
   \<and> (v \<noteq> PNone \<and> t = ''VARCHAR2'' \<and> \<not> is_str v \<longrightarrow> convert_value v t = PStr (py_str v))
   \<and> (v \<noteq> PNone \<and> (t \<noteq> ''VARCHAR2'' \<or> is_str v) \<longrightarrow> convert_value v t = v)"
  by (simp add: convert_value_def)

theorem convert_value_cases_witness:
  "convert_value PNone ''DATE'' = PNone
   \<and> convert_value (PInt 123) ''VARCHAR2'' = PStr ''123''
   \<and> convert_value (PBool True) ''VARCHAR2'' = PStr ''True''
   \<and> convert_value (PInt 123) ''NUMBER'' = PInt 123
   \<and> convert_value (PInt 123) ''CHAR'' = PInt 123
   \<and> convert_value (PStr ''x'') ''VARCHAR2'' = PStr ''x''"
  using convert_value_cases[of "''DATE''" "PInt 123"]
    convert_value_cases[of "''VARCHAR2''" "PInt 123"]
    convert_value_cases[of "''VARCHAR2''" "PBool True"]
    convert_value_cases[of "''NUMBER''" "PInt 123"]
    convert_value_cases[of "''CHAR''" "PInt 123"]
    convert_value_cases[of "''VARCHAR2''" "PStr ''x''"]
  by (simp add: str_int_def digit_char_def)

subsection \<open>The exit code of main\<close>

text \<open>
  With a migrator at hand, the rest of \<open>main\<close> counts every table once, as a success or
  as a failure, and its exit code is non-zero exactly when the failure count is positive.
\<close>

lemma process_tables_counts:
  "process_tables drv m cfg tcs w sc fc = (Inr (sc', fc'), w') \<Longrightarrow>
   sc' + fc' = sc + fc + length tcs \<and> sc \<le> sc' \<and> fc \<le> fc'"
proof (induction tcs arbitrary: w sc fc)
  case Nil
  then show ?case by simp
next
  case (Cons tc rest)
  let ?r = "migrate_table drv m w (tc_name tc)
             (case tc_mode tc of None \<Rightarrow> ''full'' | Some md \<Rightarrow> md)
             (if (case tc_mode tc of None \<Rightarrow> ''full'' | Some md \<Rightarrow> md) = ''custom'' then tc_query tc else None)
             (case tc_existing_table_behavior tc of None \<Rightarrow> ''drop_and_recreate'' | Some b \<Rightarrow> b)
             (get_table_chunk_size cfg (tc_name tc))"
  show ?case
  proof (cases "fst ?r")
    case (Inl e)
    then have "process_tables drv m cfg (tc # rest) w sc fc = (Inl e, snd ?r)"
      by (cases ?r) (simp add: Let_def)
    with Cons.prems show ?thesis by simp
  next
    case (Inr ok)
    show ?thesis
    proof (cases ok)
      case True
      then have "process_tables drv m cfg (tc # rest) w sc fc
          = process_tables drv m cfg rest (snd ?r) (sc + 1) fc"
        using Inr by (cases ?r) (simp add: Let_def)
      with Cons.prems Cons.IH[of "snd ?r" "sc + 1" fc] show ?thesis by simp
    next
      case False
      then have "process_tables drv m cfg (tc # rest) w sc fc
          = process_tables drv m cfg rest (snd ?r) sc (fc + 1)"
        using Inr by (cases ?r) (simp add: Let_def)
      with Cons.prems Cons.IH[of "snd ?r" sc "fc + 1"] show ?thesis by simp
    qed
  qed
qed

lemma run_tables_no_tables: "cfg_tables cfg = [] \<Longrightarrow> fst (run_tables drv m cfg w) = 0"
  by (simp add: run_tables_def)

lemma run_tables_exit_code:
  "process_tables drv m cfg (cfg_tables cfg) w 0 0 = (Inr (sc, fc), w') \<Longrightarrow>
     (fst (run_tables drv m cfg w) \<noteq> 0 \<longleftrightarrow> 0 < fc)"
  by (auto simp: run_tables_def Let_def)

text \<open>
  C1 does not hold of the code, because \<open>main\<close> never gets that far. Once the
  configuration is loaded and both connections are up, it builds the migrator with two
  arguments where the constructor requires three; the \<open>TypeError\<close> is caught by the
  handler of \<open>main\<close>, which returns 1. So the exit code is 1 whatever the tables are,
  also when none is configured and no table failed, and the world is left untouched.
\<close>

theorem main_exit_code_without_failures:
  "main drv (Some cfg) True True w = (1, w)"
  by (simp add: main_def TableMigrator_init_def)

text \<open>The run with no configured table, for which the claim promises exit code 0.\<close>

theorem main_exit_code_without_failures_witness:
  "main demo_driver (Some \<lparr>cfg_tables = [], cfg_default_chunk_size = None\<rparr>) True True (demo_world empty_db)
     = (1, demo_world empty_db)"
  using main_exit_code_without_failures[of demo_driver "\<lparr>cfg_tables = [], cfg_default_chunk_size = None\<rparr>" "demo_world empty_db"]
  by simp

subsection \<open>Index names\<close>

lemma new_index_name_spec:
  "new_index_name index target_table = spec_index_name (ix_name index) (ix_table_name index) target_table"
  by (simp add: new_index_name_def spec_index_name_def)

text \<open>
  C9. The statement built by \<open>generate_index_ddl\<close> carries the name the specification
  describes: the index name itself when the target table's name is as long as the
  owning table's name, and otherwise the index name with the owning table's name
  replaced by the target table's name, cut to 30 characters.
\<close>

theorem generate_index_ddl_name:
  "generate_index_ddl index target_table =
     ''CREATE '' @ (if ix_is_unique index then ''UNIQUE '' else []) @ ''INDEX ''
       @ spec_index_name (ix_name index) (ix_table_name index) target_table
       @ '' ON '' @ target_table @ '' ('' @ join '', '' (ix_columns index) @ '')''
   \<and> (length target_table = length (ix_table_name index) \<longrightarrow>
        new_index_name index target_table = ix_name index)
   \<and> (length target_table \<noteq> length (ix_table_name index) \<longrightarrow>
        new_index_name index target_table
          = take 30 (py_replace (ix_name index) (ix_table_name index) target_table)
        \<and> length (new_index_name index target_table) \<le> 30)"
  by (simp add: generate_index_ddl_def new_index_name_spec) (simp add: spec_index_name_def)

text \<open>The example of the specification, and a rename of equal length.\<close>

theorem generate_index_ddl_name_witness:
  "length ''TBL2'' \<noteq> length ''TBL''
   \<and> new_index_name \<lparr>ix_name = ''IDX_TBL_TEST'', ix_table_name = ''TBL'', ix_columns = [''COL1''],
        ix_is_unique = False, ix_tablespace_name = None\<rparr> ''TBL2'' = ''IDX_TBL2_TEST''
   \<and> generate_index_ddl \<lparr>ix_name = ''IDX_TBL_TEST'', ix_table_name = ''TBL'', ix_columns = [''COL1''],
        ix_is_unique = False, ix_tablespace_name = None\<rparr> ''TBL2''
       = ''CREATE INDEX IDX_TBL2_TEST ON TBL2 (COL1)''
   \<and> length ''ABC'' = length ''TBL''
   \<and> new_index_name \<lparr>ix_name = ''IDX_TBL_TEST'', ix_table_name = ''TBL'', ix_columns = [''COL1''],
        ix_is_unique = False, ix_tablespace_name = None\<rparr> ''ABC'' = ''IDX_TBL_TEST''"
  using generate_index_ddl_name[of "\<lparr>ix_name = ''IDX_TBL_TEST'', ix_table_name = ''TBL'', ix_columns = [''COL1''],
        ix_is_unique = False, ix_tablespace_name = None\<rparr>" "''TBL2''"]
    generate_index_ddl_name[of "\<lparr>ix_name = ''IDX_TBL_TEST'', ix_table_name = ''TBL'', ix_columns = [''COL1''],
        ix_is_unique = False, ix_tablespace_name = None\<rparr>" "''ABC''"]
  by (simp add: spec_index_name_def py_replace_def)

subsection \<open>Statements and the reconciliation step\<close>

lemma execute_non_query_eq:
  "execute_non_query drv w q =
     (fst (drv_execute drv (target w) q),
      emit [ExecNonQuery q (fst (drv_execute drv (target w) q))] (w\<lparr>target := snd (drv_execute drv (target w) q)\<rparr>))"
  by (simp add: execute_non_query_def split: prod.splits)

lemma execute_non_query_log:
  "log (snd (execute_non_query drv w q)) = log w @ [ExecNonQuery q (fst (execute_non_query drv w q))]"
  by (simp add: execute_non_query_eq)

lemma execute_non_query_source: "source (snd (execute_non_query drv w q)) = source w"
  by (simp add: execute_non_query_eq)

lemma drop_table_log:
  "log (snd (drop_table drv w t)) = log w @ [ExecNonQuery (''DROP TABLE '' @ t) (fst (drop_table drv w t))]"
  unfolding drop_table_def by (rule execute_non_query_log)

lemma drop_table_source: "source (snd (drop_table drv w t)) = source w"
  unfolding drop_table_def by (rule execute_non_query_source)

lemma create_table_log:
  "\<exists>es. log (snd (create_table drv w t)) = log w @ es \<and> list_all is_ddl es"
proof (cases "generate_create_table_sql drv w t = []")
  case True
  then show ?thesis by (simp add: create_table_def)
next
  case False
  then have "log (snd (create_table drv w t))
      = log w @ [ExecNonQuery (generate_create_table_sql drv w t) (fst (create_table drv w t))]"
    by (simp add: create_table_def execute_non_query_log)
  then show ?thesis by simp
qed

lemma create_table_source: "source (snd (create_table drv w t)) = source w"
  by (cases "generate_create_table_sql drv w t = []")
     (simp_all add: create_table_def execute_non_query_source)

lemma create_if_missing_eq:
  "create_if_missing drv w t ex = (if ex then (True, w) else create_table drv w t)"
  by (cases "create_table drv w t") (simp add: create_if_missing_def)

lemma create_if_missing_log:
  "\<exists>es. log (snd (create_if_missing drv w t ex)) = log w @ es \<and> list_all is_ddl es"
  using create_table_log[of drv w t] by (simp add: create_if_missing_eq)

lemma create_if_missing_source: "source (snd (create_if_missing drv w t ex)) = source w"
  by (simp add: create_if_missing_eq create_table_source)

lemma reconcile_eq:
  "reconcile drv w t beh =
     (if table_exists drv (target w) t then
        (if beh = ''drop_and_recreate'' then
           (if fst (drop_table drv w t) then create_table drv (snd (drop_table drv w t)) t
            else (False, snd (drop_table drv w t)))
         else if beh = ''append_if_compatible'' then
           (if schemas_match drv w t then (True, w) else (False, w))
         else (False, w))
      else create_table drv w t)"
  by (cases "drop_table drv w t") (simp add: reconcile_def create_if_missing_eq)

lemma reconcile_log:
  "\<exists>es. log (snd (reconcile drv w t beh)) = log w @ es \<and> list_all is_ddl es"
proof -
  obtain es1 where e1: "log (snd (create_table drv w t)) = log w @ es1" "list_all is_ddl es1"
    using create_table_log by blast
  obtain es2 where e2: "log (snd (create_table drv (snd (drop_table drv w t)) t)) = log (snd (drop_table drv w t)) @ es2" "list_all is_ddl es2"
    using create_table_log by blast
  have d: "log (snd (drop_table drv w t)) = log w @ [ExecNonQuery (''DROP TABLE '' @ t) (fst (drop_table drv w t))]"
    by (rule drop_table_log)
  have "log (snd (create_table drv (snd (drop_table drv w t)) t))
        = log w @ (ExecNonQuery (''DROP TABLE '' @ t) (fst (drop_table drv w t)) # es2)"
    using e2(1) d by simp
  moreover have "list_all is_ddl (ExecNonQuery (''DROP TABLE '' @ t) (fst (drop_table drv w t)) # es2)"
    using e2(2) by simp
  ultimately have e3: "\<exists>es. log (snd (create_table drv (snd (drop_table drv w t)) t)) = log w @ es \<and> list_all is_ddl es"
    by blast
  have e4: "\<exists>es. log (snd (drop_table drv w t)) = log w @ es \<and> list_all is_ddl es"
    using d by simp
  have e5: "\<exists>es. log w = log w @ es \<and> list_all is_ddl es" by simp
  have e6: "\<exists>es. log (snd (create_table drv w t)) = log w @ es \<and> list_all is_ddl es"
    using e1 by blast
  show ?thesis
    unfolding reconcile_eq using e3 e4 e5 e6 by simp
qed

lemma reconcile_source: "source (snd (reconcile drv w t beh)) = source w"
  unfolding reconcile_eq
  by (simp add: create_table_source drop_table_source)

lemma migrate_table_eq:
  "migrate_table drv self w t mode q beh k =
     (if fst (reconcile drv w t beh) then copy_data drv self (snd (reconcile drv w t beh)) t mode q k
      else (Inr False, snd (reconcile drv w t beh)))"
  by (cases "reconcile drv w t beh") (simp add: migrate_table_def)



subsection \<open>The copy loop\<close>

lemma copy_loop_done:
  "take k cur = [] \<Longrightarrow>
   copy_loop drv stmt cols k cur w n = (True, emit [FetchMany k 0, CursorClose] w, n)"
  by (rule trans[OF copy_loop.simps]) (simp add: gen_resume_def fetchmany_def)

lemma copy_loop_unfold:
  assumes "take k cur \<noteq> []"
  shows "copy_loop drv stmt cols k cur w n =
    (let chunk = take k cur;
         conv = map (\<lambda>r. convert_row_values r cols) chunk;
         w1 = emit [FetchMany k (length chunk)] w;
         r = drv_executemany drv (target w1) stmt conv;
         w2 = emit [ExecuteMany stmt conv] (w1\<lparr>target := snd r\<rparr>)
     in if \<not> fst r
        then (False, emit [Rollback] (w2\<lparr>target := drv_rollback drv (target w2)\<rparr>), n)
        else
          (let c = drv_commit drv (target w2);
               w3 = emit [Commit] (w2\<lparr>target := snd c\<rparr>)
           in if \<not> fst c
              then (False, emit [Rollback] (w3\<lparr>target := drv_rollback drv (target w3)\<rparr>), n)
              else copy_loop drv stmt cols k (drop k cur) w3 (n + length chunk)))"
  using assms
  by (intro trans[OF copy_loop.simps])
     (simp add: gen_resume_def fetchmany_def Let_def split: prod.splits)

lemma copy_loop_events:
  "\<exists>es. log (fst (snd (copy_loop drv stmt cols k cur w n))) = log w @ es
     \<and> source (fst (snd (copy_loop drv stmt cols k cur w n))) = source w
     \<and> list_all (\<lambda>e. \<not> is_ddl e) es
     \<and> (\<forall>s rows. ExecuteMany s rows \<in> set es \<longrightarrow>
            s = stmt \<and> (\<exists>chunk. rows = map (\<lambda>r. convert_row_values r cols) chunk))
     \<and> (fst (copy_loop drv stmt cols k cur w n) \<longrightarrow>
            (\<exists>es0. es = es0 @ [FetchMany k 0, CursorClose] \<and> CursorClose \<notin> set es0
                   \<and> Rollback \<notin> set es0 \<and> FetchMany k 0 \<notin> set es0))
     \<and> (\<not> fst (copy_loop drv stmt cols k cur w n) \<longrightarrow>
            CursorClose \<notin> set es \<and> Rollback \<in> set es \<and> FetchMany k 0 \<notin> set es)"
  (is "?P cur w n")
proof (induction "length cur" arbitrary: cur w n rule: less_induct)
  case less
  show ?case
  proof (cases "take k cur = []")
    case True
    have "copy_loop drv stmt cols k cur w n = (True, emit [FetchMany k 0, CursorClose] w, n)"
      by (rule copy_loop_done[OF True])
    then show ?thesis by simp
  next
    case False
    then have nz: "length (take k cur) \<noteq> 0" by simp
    from False have shorter: "length (drop k cur) < length cur"
      by (cases k; cases cur) auto
    define chunk where "chunk = take k cur"
    define conv where "conv = map (\<lambda>r. convert_row_values r cols) chunk"
    define w1 where "w1 = emit [FetchMany k (length chunk)] w"
    define r where "r = drv_executemany drv (target w1) stmt conv"
    define w2 where "w2 = emit [ExecuteMany stmt conv] (w1\<lparr>target := snd r\<rparr>)"
    define c where "c = drv_commit drv (target w2)"
    define w3 where "w3 = emit [Commit] (w2\<lparr>target := snd c\<rparr>)"
    define wr2 where "wr2 = emit [Rollback] (w2\<lparr>target := drv_rollback drv (target w2)\<rparr>)"
    define wr3 where "wr3 = emit [Rollback] (w3\<lparr>target := drv_rollback drv (target w3)\<rparr>)"
    have unf: "copy_loop drv stmt cols k cur w n =
        (if \<not> fst r then (False, wr2, n)
         else if \<not> fst c then (False, wr3, n)
         else copy_loop drv stmt cols k (drop k cur) w3 (n + length chunk))"
      unfolding copy_loop_unfold[OF False] Let_def
      by (simp add: chunk_def conv_def w1_def r_def w2_def c_def w3_def wr2_def wr3_def)
    have l2: "log w2 = log w @ [FetchMany k (length chunk), ExecuteMany stmt conv]"
      and s2: "source w2 = source w"
      by (simp_all add: w2_def w1_def)
    have l3: "log w3 = log w @ [FetchMany k (length chunk), ExecuteMany stmt conv, Commit]"
      and s3: "source w3 = source w"
      using l2 s2 by (simp_all add: w3_def)
    have lr2: "log wr2 = log w @ [FetchMany k (length chunk), ExecuteMany stmt conv, Rollback]"
      and sr2: "source wr2 = source w"
      using l2 s2 by (simp_all add: wr2_def)
    have lr3: "log wr3 = log w @ [FetchMany k (length chunk), ExecuteMany stmt conv, Commit, Rollback]"
      and sr3: "source wr3 = source w"
      using l3 s3 by (simp_all add: wr3_def)
    have cz: "length chunk \<noteq> 0" using nz by (simp add: chunk_def)
    show ?thesis
    proof (cases "fst r")
      case False
      then have "copy_loop drv stmt cols k cur w n = (False, wr2, n)" using unf by simp
      then show ?thesis using lr2 sr2 cz by (auto simp: conv_def)
    next
      case True
      note r_ok = this
      show ?thesis
      proof (cases "fst c")
        case False
        then have "copy_loop drv stmt cols k cur w n = (False, wr3, n)" using unf r_ok by simp
        then show ?thesis using lr3 sr3 cz by (auto simp: conv_def)
      next
        case True
        let ?rec = "copy_loop drv stmt cols k (drop k cur) w3 (n + length chunk)"
        have eq: "copy_loop drv stmt cols k cur w n = ?rec" using unf r_ok True by simp
        from less[OF shorter, of w3 "n + length chunk"]
        obtain es where es:
          "log (fst (snd ?rec)) = log w3 @ es"
          "source (fst (snd ?rec)) = source w3"
          "list_all (\<lambda>e. \<not> is_ddl e) es"
          "\<forall>s rows. ExecuteMany s rows \<in> set es \<longrightarrow>
            s = stmt \<and> (\<exists>chunk. rows = map (\<lambda>r. convert_row_values r cols) chunk)"
          "fst ?rec \<longrightarrow>
            (\<exists>es0. es = es0 @ [FetchMany k 0, CursorClose] \<and> CursorClose \<notin> set es0
                   \<and> Rollback \<notin> set es0 \<and> FetchMany k 0 \<notin> set es0)"
          "\<not> fst ?rec \<longrightarrow>
            CursorClose \<notin> set es \<and> Rollback \<in> set es \<and> FetchMany k 0 \<notin> set es"
          by blast
        let ?pre = "[FetchMany k (length chunk), ExecuteMany stmt conv, Commit]"
        have a1: "log (fst (snd ?rec)) = log w @ (?pre @ es)" using es(1) l3 by simp
        have a2: "source (fst (snd ?rec)) = source w" using es(2) s3 by simp
        have a3: "list_all (\<lambda>e. \<not> is_ddl e) (?pre @ es)" using es(3) by simp
        have a4: "\<forall>s rows. ExecuteMany s rows \<in> set (?pre @ es) \<longrightarrow>
            s = stmt \<and> (\<exists>chunk. rows = map (\<lambda>r. convert_row_values r cols) chunk)"
          using es(4) by (auto simp: conv_def)
        have a5: "fst ?rec \<longrightarrow>
            (\<exists>es0. ?pre @ es = es0 @ [FetchMany k 0, CursorClose] \<and> CursorClose \<notin> set es0
                   \<and> Rollback \<notin> set es0 \<and> FetchMany k 0 \<notin> set es0)"
        proof
          assume "fst ?rec"
          with es(5) obtain es0 where e0: "es = es0 @ [FetchMany k 0, CursorClose]" "CursorClose \<notin> set es0"
            "Rollback \<notin> set es0" "FetchMany k 0 \<notin> set es0" by blast
          have "?pre @ es = (?pre @ es0) @ [FetchMany k 0, CursorClose]" using e0(1) by simp
          moreover have "CursorClose \<notin> set (?pre @ es0)" "Rollback \<notin> set (?pre @ es0)"
            "FetchMany k 0 \<notin> set (?pre @ es0)" using e0 cz by auto
          ultimately show "\<exists>es0. ?pre @ es = es0 @ [FetchMany k 0, CursorClose] \<and> CursorClose \<notin> set es0
                   \<and> Rollback \<notin> set es0 \<and> FetchMany k 0 \<notin> set es0" by blast
        qed
        have a6: "\<not> fst ?rec \<longrightarrow>
            CursorClose \<notin> set (?pre @ es) \<and> Rollback \<in> set (?pre @ es) \<and> FetchMany k 0 \<notin> set (?pre @ es)"
          using es(6) cz by auto
        show ?thesis unfolding eq using a1 a2 a3 a4 a5 a6 by blast
      qed
    qed
  qed
qed

subsection \<open>The index loop\<close>

lemma generate_index_ddl_nonempty: "generate_index_ddl ix tt \<noteq> []"
  by (simp add: generate_index_ddl_def Let_def)

lemma index_loop_Cons:
  "index_loop drv w tt (ix # rest) s =
     index_loop drv (snd (execute_non_query drv w (generate_index_ddl ix tt))) tt rest
       (s \<and> fst (execute_non_query drv w (generate_index_ddl ix tt)))"
  by (cases "execute_non_query drv w (generate_index_ddl ix tt)")
     (simp add: generate_index_ddl_nonempty create_index_def Let_def)

lemma index_loop_events:
  "\<exists>oks. length oks = length ixs
     \<and> log (snd (index_loop drv w tt ixs s))
         = log w @ map (\<lambda>(ix, ok). ExecNonQuery (generate_index_ddl ix tt) ok) (zip ixs oks)
     \<and> fst (index_loop drv w tt ixs s) = (s \<and> list_all (\<lambda>ok. ok) oks)
     \<and> source (snd (index_loop drv w tt ixs s)) = source w"
proof (induction ixs arbitrary: w s)
  case Nil
  then show ?case by simp
next
  case (Cons ix rest)
  let ?ddl = "generate_index_ddl ix tt"
  let ?ok = "fst (execute_non_query drv w ?ddl)"
  let ?w1 = "snd (execute_non_query drv w ?ddl)"
  from Cons[of ?w1 "s \<and> ?ok"] obtain oks where oks:
    "length oks = length rest"
    "log (snd (index_loop drv ?w1 tt rest (s \<and> ?ok)))
         = log ?w1 @ map (\<lambda>(ix, ok). ExecNonQuery (generate_index_ddl ix tt) ok) (zip rest oks)"
    "fst (index_loop drv ?w1 tt rest (s \<and> ?ok)) = ((s \<and> ?ok) \<and> list_all (\<lambda>ok. ok) oks)"
    "source (snd (index_loop drv ?w1 tt rest (s \<and> ?ok))) = source ?w1"
    by blast
  have l1: "log ?w1 = log w @ [ExecNonQuery ?ddl ?ok]" by (rule execute_non_query_log)
  have s1: "source ?w1 = source w" by (rule execute_non_query_source)
  have "length (?ok # oks) = length (ix # rest)" using oks(1) by simp
  moreover have "log (snd (index_loop drv w tt (ix # rest) s))
         = log w @ map (\<lambda>(ix, ok). ExecNonQuery (generate_index_ddl ix tt) ok) (zip (ix # rest) (?ok # oks))"
    unfolding index_loop_Cons using oks(2) l1 by simp
  moreover have "fst (index_loop drv w tt (ix # rest) s) = (s \<and> list_all (\<lambda>ok. ok) (?ok # oks))"
    unfolding index_loop_Cons using oks(3) by auto
  moreover have "source (snd (index_loop drv w tt (ix # rest) s)) = source w"
    unfolding index_loop_Cons using oks(4) s1 by simp
  ultimately show ?case by blast
qed

lemma migrate_indexes_events:
  "\<exists>oks. length oks = length (get_table_indexes drv (source w) st)
     \<and> log (snd (migrate_indexes_for_table drv w st tt))
         = log w @ map (\<lambda>(ix, ok). ExecNonQuery (generate_index_ddl ix tt) ok)
                      (zip (get_table_indexes drv (source w) st) oks)
     \<and> fst (migrate_indexes_for_table drv w st tt) = list_all (\<lambda>ok. ok) oks
     \<and> source (snd (migrate_indexes_for_table drv w st tt)) = source w"
proof (cases "get_table_indexes drv (source w) st = []")
  case True
  then show ?thesis by (simp add: migrate_indexes_for_table_def)
next
  case False
  then have "migrate_indexes_for_table drv w st tt
      = index_loop drv w tt (get_table_indexes drv (source w) st) True"
    by (simp add: migrate_indexes_for_table_def Let_def)
  then show ?thesis using index_loop_events[of "get_table_indexes drv (source w) st" drv w tt True]
    by simp
qed

lemma migrate_indexes_ddl:
  "\<exists>es. log (snd (migrate_indexes_for_table drv w st tt)) = log w @ es \<and> list_all is_ddl es"
proof -
  from migrate_indexes_events[of drv w st tt] obtain oks where
    "log (snd (migrate_indexes_for_table drv w st tt))
         = log w @ map (\<lambda>(ix, ok). ExecNonQuery (generate_index_ddl ix tt) ok)
                      (zip (get_table_indexes drv (source w) st) oks)" by blast
  moreover have "list_all is_ddl (map (\<lambda>(ix, ok). ExecNonQuery (generate_index_ddl ix tt) ok)
                      (zip (get_table_indexes drv (source w) st) oks))"
    by (simp add: list_all_iff split_beta)
  ultimately show ?thesis by blast
qed

subsection \<open>The events of the copy phase and of a whole table\<close>

lemma copy_data_eq:
  "copy_data drv self w t mode q k =
    (case get_row_count drv w t (if mode = ''custom'' then query_given q else None) of
       Inl e \<Rightarrow> (Inr False, w)
     | Inr row_count \<Rightarrow>
         if py_eq_zero row_count then (Inr True, w)
         else
           (case drv_select drv (source w)
                   (get_data_query t (if mode = ''custom'' then query_given q else None)) of
              None \<Rightarrow> (Inl DriverError,
                        emit [SetInputSizes (map (\<lambda>col. get_column_type (data_type col))
                                (get_table_schema drv (source w) t))] w)
            | Some rows \<Rightarrow>
                (let r = copy_loop drv
                           (prepare_insert_statement t (map name (get_table_schema drv (source w) t)))
                           (get_table_schema drv (source w) t) k rows
                           (emit [SetInputSizes (map (\<lambda>col. get_column_type (data_type col))
                                     (get_table_schema drv (source w) t)),
                                  CursorOpen (get_data_query t (if mode = ''custom'' then query_given q else None)) k] w)
                           0
                 in if \<not> fst r then (Inr False, fst (snd r))
                    else if py_truthy (migrate_indexes_globally self)
                         then (Inr True, snd (migrate_indexes_for_table drv (fst (snd r)) t t))
                         else (Inr True, fst (snd r)))))"
  by (simp add: copy_data_def gen_start_def Let_def emit_def
        split: sum.splits option.splits prod.splits)


lemma copy_data_events:
  fixes drv self w t mode q k
  defines "cols \<equiv> get_table_schema drv (source w) t"
  shows "\<exists>mid post. log (snd (copy_data drv self w t mode q k)) = log w @ mid @ post
     \<and> list_all is_ddl post
     \<and> list_all (\<lambda>e. \<not> is_ddl e) mid
     \<and> (\<forall>s rows. ExecuteMany s rows \<in> set mid \<longrightarrow>
            s = prepare_insert_statement t (map name cols)
            \<and> (\<exists>chunk. rows = map (\<lambda>r. convert_row_values r cols) chunk))
     \<and> (CursorClose \<notin> set mid
          \<or> (\<exists>es0. mid = es0 @ [FetchMany k 0, CursorClose] \<and> CursorClose \<notin> set es0 \<and> Rollback \<notin> set es0))
     \<and> (Rollback \<in> set mid \<longrightarrow>
            CursorClose \<notin> set mid \<and> FetchMany k 0 \<notin> set mid
            \<and> fst (copy_data drv self w t mode q k) = Inr False \<and> post = [])
     \<and> source (snd (copy_data drv self w t mode q k)) = source w"
  (is "\<exists>mid post. ?Q mid post")
proof -
  let ?eff = "if mode = ''custom'' then query_given q else None"
  let ?sis = "SetInputSizes (map (\<lambda>col. get_column_type (data_type col)) cols)"
  let ?open = "CursorOpen (get_data_query t ?eff) k"
  let ?stmt = "prepare_insert_statement t (map name cols)"
  have trivial: "?Q [] []" if "copy_data drv self w t mode q k = (res, w)" for res
    using that by simp
  show ?thesis
  proof (cases "get_row_count drv w t ?eff")
    case (Inl e)
    then have "copy_data drv self w t mode q k = (Inr False, w)"
      by (simp add: copy_data_eq)
    from trivial[OF this] show ?thesis by blast
  next
    case (Inr row_count)
    show ?thesis
    proof (cases "py_eq_zero row_count")
      case True
      then have "copy_data drv self w t mode q k = (Inr True, w)"
        using Inr by (simp add: copy_data_eq)
      from trivial[OF this] show ?thesis by blast
    next
      case False
      note nonzero = this
      show ?thesis
      proof (cases "drv_select drv (source w) (get_data_query t ?eff)")
        case None
        then have "copy_data drv self w t mode q k = (Inl DriverError, emit [?sis] w)"
          using Inr nonzero by (simp add: copy_data_eq cols_def)
        then have "?Q [?sis] []" by simp
        then show ?thesis by blast
      next
        case (Some rows)
        let ?w2 = "emit [?sis, ?open] w"
        let ?r = "copy_loop drv ?stmt cols k rows ?w2 0"
        have cd: "copy_data drv self w t mode q k =
            (if \<not> fst ?r then (Inr False, fst (snd ?r))
             else if py_truthy (migrate_indexes_globally self)
                  then (Inr True, snd (migrate_indexes_for_table drv (fst (snd ?r)) t t))
                  else (Inr True, fst (snd ?r)))"
          using Inr nonzero Some by (simp add: copy_data_eq cols_def Let_def)
        from copy_loop_events[of drv ?stmt cols k rows ?w2 0] obtain es where es:
          "log (fst (snd ?r)) = log ?w2 @ es"
          "source (fst (snd ?r)) = source ?w2"
          "list_all (\<lambda>e. \<not> is_ddl e) es"
          "\<forall>s rows. ExecuteMany s rows \<in> set es \<longrightarrow>
              s = ?stmt \<and> (\<exists>chunk. rows = map (\<lambda>r. convert_row_values r cols) chunk)"
          "fst ?r \<longrightarrow> (\<exists>es0. es = es0 @ [FetchMany k 0, CursorClose] \<and> CursorClose \<notin> set es0
                   \<and> Rollback \<notin> set es0 \<and> FetchMany k 0 \<notin> set es0)"
          "\<not> fst ?r \<longrightarrow> CursorClose \<notin> set es \<and> Rollback \<in> set es \<and> FetchMany k 0 \<notin> set es"
          by blast
        let ?mid = "[?sis, ?open] @ es"
        have lg: "log (fst (snd ?r)) = log w @ ?mid" using es(1) by simp
        have sr: "source (fst (snd ?r)) = source w" using es(2) by simp
        have m1: "list_all (\<lambda>e. \<not> is_ddl e) ?mid" using es(3) by simp
        have m2: "\<forall>s rows. ExecuteMany s rows \<in> set ?mid \<longrightarrow>
              s = ?stmt \<and> (\<exists>chunk. rows = map (\<lambda>r. convert_row_values r cols) chunk)"
          using es(4) by simp
        show ?thesis
        proof (cases "fst ?r")
          case False
          then have res: "copy_data drv self w t mode q k = (Inr False, fst (snd ?r))"
            using cd by simp
          have m3: "CursorClose \<notin> set ?mid" "FetchMany k 0 \<notin> set ?mid"
            using es(6) False by simp_all
          have "?Q ?mid []"
            unfolding res using lg sr m1 m2 m3 by simp
          then show ?thesis by blast
        next
          case True
          with es(5) obtain es0 where e0: "es = es0 @ [FetchMany k 0, CursorClose]"
            "CursorClose \<notin> set es0" "Rollback \<notin> set es0" by blast
          have shape: "?mid = ([?sis, ?open] @ es0) @ [FetchMany k 0, CursorClose]"
            "CursorClose \<notin> set ([?sis, ?open] @ es0)" "Rollback \<notin> set ([?sis, ?open] @ es0)"
            using e0 by simp_all
          then have m4: "\<exists>es0. ?mid = es0 @ [FetchMany k 0, CursorClose] \<and> CursorClose \<notin> set es0 \<and> Rollback \<notin> set es0"
            by blast
          have m5: "Rollback \<notin> set ?mid" using e0 by simp
          show ?thesis
          proof (cases "py_truthy (migrate_indexes_globally self)")
            case False
            then have res: "copy_data drv self w t mode q k = (Inr True, fst (snd ?r))"
              using cd True by simp
            have "?Q ?mid []"
              unfolding res using lg sr m1 m2 m4 m5 by simp
            then show ?thesis by blast
          next
            case ix: True
            let ?wi = "snd (migrate_indexes_for_table drv (fst (snd ?r)) t t)"
            have res: "copy_data drv self w t mode q k = (Inr True, ?wi)"
              using cd True ix by simp
            from migrate_indexes_ddl[of drv "fst (snd ?r)" t t] obtain post where
              post: "log ?wi = log (fst (snd ?r)) @ post" "list_all is_ddl post" by blast
            from migrate_indexes_events[of drv "fst (snd ?r)" t t]
            have si: "source ?wi = source (fst (snd ?r))" by blast
            have lw: "log ?wi = log w @ ?mid @ post" using post(1) lg by simp
            have sw: "source ?wi = source w" using si sr by simp
            have "?Q ?mid post"
              unfolding res using lw sw post(2) m1 m2 m4 m5 by simp
            then show ?thesis by blast
          qed
        qed
      qed
    qed
  qed
qed



lemma migrate_table_events:
  fixes drv self w t mode q beh k
  defines "cols \<equiv> get_table_schema drv (source w) t"
  shows "\<exists>pre mid post.
       log (snd (migrate_table drv self w t mode q beh k)) = log w @ pre @ mid @ post
     \<and> list_all is_ddl pre \<and> list_all is_ddl post
     \<and> list_all (\<lambda>e. \<not> is_ddl e) mid
     \<and> (\<forall>s rows. ExecuteMany s rows \<in> set mid \<longrightarrow>
            s = prepare_insert_statement t (map name cols)
            \<and> (\<exists>chunk. rows = map (\<lambda>r. convert_row_values r cols) chunk))
     \<and> (CursorClose \<notin> set mid
          \<or> (\<exists>es0. mid = es0 @ [FetchMany k 0, CursorClose] \<and> CursorClose \<notin> set es0 \<and> Rollback \<notin> set es0))
     \<and> (Rollback \<in> set mid \<longrightarrow>
            CursorClose \<notin> set mid \<and> FetchMany k 0 \<notin> set mid
            \<and> fst (migrate_table drv self w t mode q beh k) = Inr False \<and> post = [])
     \<and> (\<not> fst (reconcile drv w t beh) \<longrightarrow>
            mid = [] \<and> post = [] \<and> fst (migrate_table drv self w t mode q beh k) = Inr False)"
  (is "\<exists>pre mid post. ?Q pre mid post")
proof -
  let ?w1 = "snd (reconcile drv w t beh)"
  obtain pre where pre: "log ?w1 = log w @ pre" "list_all is_ddl pre"
    using reconcile_log by blast
  have src: "source ?w1 = source w" by (rule reconcile_source)
  show ?thesis
  proof (cases "fst (reconcile drv w t beh)")
    case False
    then have "migrate_table drv self w t mode q beh k = (Inr False, ?w1)"
      by (simp add: migrate_table_eq)
    then have "?Q pre [] []" using pre False by simp
    then show ?thesis by blast
  next
    case True
    then have res: "migrate_table drv self w t mode q beh k = copy_data drv self ?w1 t mode q k"
      by (simp add: migrate_table_eq)
    have c1: "get_table_schema drv (source ?w1) t = cols" using src by (simp add: cols_def)
    from copy_data_events[of drv self ?w1 t mode q k] obtain mid post where mp:
      "log (snd (copy_data drv self ?w1 t mode q k)) = log ?w1 @ mid @ post"
      "list_all is_ddl post"
      "list_all (\<lambda>e. \<not> is_ddl e) mid"
      "\<forall>s rows. ExecuteMany s rows \<in> set mid \<longrightarrow>
            s = prepare_insert_statement t (map name cols)
            \<and> (\<exists>chunk. rows = map (\<lambda>r. convert_row_values r cols) chunk)"
      "CursorClose \<notin> set mid
          \<or> (\<exists>es0. mid = es0 @ [FetchMany k 0, CursorClose] \<and> CursorClose \<notin> set es0 \<and> Rollback \<notin> set es0)"
      "Rollback \<in> set mid \<longrightarrow>
            CursorClose \<notin> set mid \<and> FetchMany k 0 \<notin> set mid
            \<and> fst (copy_data drv self ?w1 t mode q k) = Inr False \<and> post = []"
      unfolding c1 by blast
    have lg: "log (snd (migrate_table drv self w t mode q beh k)) = log w @ pre @ mid @ post"
      using mp(1) pre(1) res by simp
    have rb: "Rollback \<in> set mid \<longrightarrow>
            CursorClose \<notin> set mid \<and> FetchMany k 0 \<notin> set mid
            \<and> fst (migrate_table drv self w t mode q beh k) = Inr False \<and> post = []"
      using mp(6) res by simp
    have "?Q pre mid post"
      using lg pre(2) mp(2) mp(3) mp(4) mp(5) rb True by blast
    then show ?thesis by blast
  qed
qed

lemma ddl_not_copy: "list_all is_ddl es \<Longrightarrow> CursorClose \<notin> set es \<and> Rollback \<notin> set es
    \<and> (\<forall>s rows. ExecuteMany s rows \<notin> set es)"
  by (induction es) auto

lemma migrate_table_new_events:
  fixes drv self w t mode q beh k
  defines "cols \<equiv> get_table_schema drv (source w) t"
  defines "es \<equiv> new_events w (snd (migrate_table drv self w t mode q beh k))"
  shows "\<exists>pre mid post. es = pre @ mid @ post
     \<and> list_all is_ddl pre \<and> list_all is_ddl post
     \<and> (\<forall>s rows. ExecuteMany s rows \<in> set mid \<longrightarrow>
            s = prepare_insert_statement t (map name cols)
            \<and> (\<exists>chunk. rows = map (\<lambda>r. convert_row_values r cols) chunk))
     \<and> (CursorClose \<notin> set mid
          \<or> (\<exists>es0. mid = es0 @ [FetchMany k 0, CursorClose] \<and> CursorClose \<notin> set es0))
     \<and> (Rollback \<in> set mid \<longrightarrow>
            CursorClose \<notin> set mid \<and> fst (migrate_table drv self w t mode q beh k) = Inr False)
     \<and> (\<not> fst (reconcile drv w t beh) \<longrightarrow>
            mid = [] \<and> post = [] \<and> fst (migrate_table drv self w t mode q beh k) = Inr False)"
proof -
  from migrate_table_events[of drv self w t mode q beh k]
  obtain pre mid post where f:
    "log (snd (migrate_table drv self w t mode q beh k)) = log w @ pre @ mid @ post"
    "list_all is_ddl pre" "list_all is_ddl post"
    "\<forall>s rows. ExecuteMany s rows \<in> set mid \<longrightarrow>
            s = prepare_insert_statement t (map name cols)
            \<and> (\<exists>chunk. rows = map (\<lambda>r. convert_row_values r cols) chunk)"
    "CursorClose \<notin> set mid
          \<or> (\<exists>es0. mid = es0 @ [FetchMany k 0, CursorClose] \<and> CursorClose \<notin> set es0 \<and> Rollback \<notin> set es0)"
    "Rollback \<in> set mid \<longrightarrow>
            CursorClose \<notin> set mid \<and> FetchMany k 0 \<notin> set mid
            \<and> fst (migrate_table drv self w t mode q beh k) = Inr False \<and> post = []"
    "\<not> fst (reconcile drv w t beh) \<longrightarrow>
            mid = [] \<and> post = [] \<and> fst (migrate_table drv self w t mode q beh k) = Inr False"
    unfolding cols_def by blast
  have "es = pre @ mid @ post" unfolding es_def by (rule new_events_append[OF f(1)])
  moreover have "CursorClose \<notin> set mid
          \<or> (\<exists>es0. mid = es0 @ [FetchMany k 0, CursorClose] \<and> CursorClose \<notin> set es0)"
    using f(5) by blast
  moreover have "Rollback \<in> set mid \<longrightarrow>
            CursorClose \<notin> set mid \<and> fst (migrate_table drv self w t mode q beh k) = Inr False"
    using f(6) by blast
  ultimately show ?thesis using f(2) f(3) f(4) f(7) by blast
qed

lemma executemany_events:
  fixes drv self w t mode q beh k
  defines "cols \<equiv> get_table_schema drv (source w) t"
  assumes "ExecuteMany s rows \<in> set (new_events w (snd (migrate_table drv self w t mode q beh k)))"
  shows "s = prepare_insert_statement t (map name cols)
       \<and> (\<exists>chunk. rows = map (\<lambda>r. convert_row_values r cols) chunk)"
proof -
  from migrate_table_new_events[where drv=drv and self=self and w=w and t=t and mode=mode and q=q and beh=beh and k=k]
  obtain pre mid post where f:
    "new_events w (snd (migrate_table drv self w t mode q beh k)) = pre @ mid @ post"
    "list_all is_ddl pre" "list_all is_ddl post"
    "\<forall>s rows. ExecuteMany s rows \<in> set mid \<longrightarrow>
            s = prepare_insert_statement t (map name cols)
            \<and> (\<exists>chunk. rows = map (\<lambda>r. convert_row_values r cols) chunk)"
    unfolding cols_def by blast
  have "ExecuteMany s rows \<notin> set pre" "ExecuteMany s rows \<notin> set post"
    using ddl_not_copy[OF f(2)] ddl_not_copy[OF f(3)] by simp_all
  with assms(2) f(1) have "ExecuteMany s rows \<in> set mid" by simp
  with f(4) show ?thesis by blast
qed

subsection \<open>Reconciliation\<close>



text \<open>
  C6. When the target exists, \<open>append_if_compatible\<close> is requested and the schemas do not
  match, \<open>migrate_table\<close> returns \<open>False\<close> and leaves the world as it found it: no
  statement was sent, no row was fetched or inserted, and the state of the target
  connection, its rows included, is the one before the call.
\<close>

theorem append_incompatible_leaves_target:
  assumes "table_exists drv (target w) t" and "\<not> schemas_match drv w t"
  shows "migrate_table drv self w t mode q ''append_if_compatible'' k = (Inr False, w)
       \<and> new_events w (snd (migrate_table drv self w t mode q ''append_if_compatible'' k)) = []
       \<and> target (snd (migrate_table drv self w t mode q ''append_if_compatible'' k)) = target w"
proof -
  have "migrate_table drv self w t mode q ''append_if_compatible'' k = (Inr False, w)"
    using assms by (simp add: migrate_table_eq reconcile_eq)
  then show ?thesis by (simp add: new_events_def)
qed

text \<open>A target whose \<open>NAME\<close> column is wider than the source's.\<close>

theorem append_incompatible_leaves_target_witness:
  "table_exists demo_driver (target (demo_world (target_with wider_columns))) ''T''
   \<and> \<not> schemas_match demo_driver (demo_world (target_with wider_columns)) ''T''
   \<and> migrate_table demo_driver plain_migrator (demo_world (target_with wider_columns))
        ''T'' ''full'' None ''append_if_compatible'' 2
      = (Inr False, demo_world (target_with wider_columns))
   \<and> stored (target (snd (migrate_table demo_driver plain_migrator (demo_world (target_with wider_columns))
        ''T'' ''full'' None ''append_if_compatible'' 2))) = stored (target_with wider_columns)"
proof -
  let ?w = "demo_world (target_with wider_columns)"
  have h1: "table_exists demo_driver (target ?w) ''T''" by code_simp
  have h2: "\<not> schemas_match demo_driver ?w ''T''" by code_simp
  have h3: "target ?w = target_with wider_columns" by (simp add: demo_world_def)
  from append_incompatible_leaves_target[OF h1 h2, of plain_migrator "''full''" None 2]
  show ?thesis using h1 h2 h3 by simp
qed

subsection \<open>Index replication\<close>



subsection \<open>The source cursor\<close>

text \<open>
  C10. The generator closes its cursor exactly in the turn whose fetch returned no row.
  A copy loop that returns early, because a batch could not be inserted or committed,
  never closes it. In the events of a whole \<open>migrate_table\<close> the close occurs at most
  once and then right after the empty fetch; in a run with a rollback it does not occur
  at all, and the run returns \<open>False\<close>.
\<close>

theorem cursor_closed_only_after_empty_fetch:
  "(CursorClose \<in> set (new_events w (snd (gen_resume k cur w))) \<longleftrightarrow> fst (fetchmany k cur) = [])
   \<and> (\<not> fst (copy_loop drv stmt cols k cur w n) \<longrightarrow>
         CursorClose \<notin> set (new_events w (fst (snd (copy_loop drv stmt cols k cur w n)))))
   \<and> (CursorClose \<notin> set (new_events w (snd (migrate_table drv self w t mode q beh k)))
       \<or> (\<exists>a b. new_events w (snd (migrate_table drv self w t mode q beh k))
                    = a @ [FetchMany k 0, CursorClose] @ b
                \<and> CursorClose \<notin> set a \<and> CursorClose \<notin> set b))
   \<and> (Rollback \<in> set (new_events w (snd (migrate_table drv self w t mode q beh k))) \<longrightarrow>
         CursorClose \<notin> set (new_events w (snd (migrate_table drv self w t mode q beh k)))
         \<and> fst (migrate_table drv self w t mode q beh k) = Inr False)"
proof -
  have g: "CursorClose \<in> set (new_events w (snd (gen_resume k cur w))) \<longleftrightarrow> fst (fetchmany k cur) = []"
    by (simp add: gen_resume_def fetchmany_def new_events_def)
  have l: "\<not> fst (copy_loop drv stmt cols k cur w n) \<longrightarrow>
         CursorClose \<notin> set (new_events w (fst (snd (copy_loop drv stmt cols k cur w n))))"
  proof
    assume nf: "\<not> fst (copy_loop drv stmt cols k cur w n)"
    from copy_loop_events[of drv stmt cols k cur w n] obtain es where
      es: "log (fst (snd (copy_loop drv stmt cols k cur w n))) = log w @ es"
      and cc: "\<not> fst (copy_loop drv stmt cols k cur w n) \<longrightarrow>
            CursorClose \<notin> set es \<and> Rollback \<in> set es \<and> FetchMany k 0 \<notin> set es"
      by blast
    have "new_events w (fst (snd (copy_loop drv stmt cols k cur w n))) = es"
      by (rule new_events_append[OF es])
    then show "CursorClose \<notin> set (new_events w (fst (snd (copy_loop drv stmt cols k cur w n))))"
      using cc nf by simp
  qed
  let ?es = "new_events w (snd (migrate_table drv self w t mode q beh k))"
  from migrate_table_new_events[where drv=drv and self=self and w=w and t=t and mode=mode and q=q and beh=beh and k=k]
  obtain pre mid post where f:
    "?es = pre @ mid @ post" "list_all is_ddl pre" "list_all is_ddl post"
    "CursorClose \<notin> set mid
          \<or> (\<exists>es0. mid = es0 @ [FetchMany k 0, CursorClose] \<and> CursorClose \<notin> set es0)"
    "Rollback \<in> set mid \<longrightarrow>
            CursorClose \<notin> set mid \<and> fst (migrate_table drv self w t mode q beh k) = Inr False"
    by blast
  have np: "CursorClose \<notin> set pre" "Rollback \<notin> set pre" using ddl_not_copy[OF f(2)] by simp_all
  have nq: "CursorClose \<notin> set post" "Rollback \<notin> set post" using ddl_not_copy[OF f(3)] by simp_all
  have m: "CursorClose \<notin> set ?es
       \<or> (\<exists>a b. ?es = a @ [FetchMany k 0, CursorClose] @ b \<and> CursorClose \<notin> set a \<and> CursorClose \<notin> set b)"
  proof (cases "CursorClose \<in> set mid")
    case False
    then have "CursorClose \<notin> set ?es" using f(1) np nq by simp
    then show ?thesis by blast
  next
    case True
    with f(4) obtain es0 where e0: "mid = es0 @ [FetchMany k 0, CursorClose]" "CursorClose \<notin> set es0"
      by blast
    have "?es = (pre @ es0) @ [FetchMany k 0, CursorClose] @ post" using f(1) e0(1) by simp
    moreover have "CursorClose \<notin> set (pre @ es0)" using np e0(2) by simp
    ultimately show ?thesis using nq(1) by blast
  qed
  have r: "Rollback \<in> set ?es \<longrightarrow> CursorClose \<notin> set ?es
         \<and> fst (migrate_table drv self w t mode q beh k) = Inr False"
  proof
    assume "Rollback \<in> set ?es"
    then have "Rollback \<in> set mid" using f(1) np nq by simp
    with f(5) have "CursorClose \<notin> set mid" "fst (migrate_table drv self w t mode q beh k) = Inr False"
      by simp_all
    then show "CursorClose \<notin> set ?es \<and> fst (migrate_table drv self w t mode q beh k) = Inr False"
      using f(1) np nq by simp
  qed
  show ?thesis using g l m r by blast
qed

text \<open>
  A target that rejects the third row: the first chunk is committed, the second is rolled
  back, and the cursor opened on the source is never closed.
\<close>

theorem cursor_closed_only_after_empty_fetch_witness:
  "Rollback \<in> set (new_events (demo_world (rejecting_rows [[PNone, PStr ''c'']] empty_db))
      (snd (migrate_table demo_driver plain_migrator (demo_world (rejecting_rows [[PNone, PStr ''c'']] empty_db))
             ''T'' ''full'' None ''drop_and_recreate'' 2)))
   \<and> CursorOpen ''SELECT * FROM T'' 2 \<in> set (new_events (demo_world (rejecting_rows [[PNone, PStr ''c'']] empty_db))
      (snd (migrate_table demo_driver plain_migrator (demo_world (rejecting_rows [[PNone, PStr ''c'']] empty_db))
             ''T'' ''full'' None ''drop_and_recreate'' 2)))
   \<and> CursorClose \<notin> set (new_events (demo_world (rejecting_rows [[PNone, PStr ''c'']] empty_db))
      (snd (migrate_table demo_driver plain_migrator (demo_world (rejecting_rows [[PNone, PStr ''c'']] empty_db))
             ''T'' ''full'' None ''drop_and_recreate'' 2)))
   \<and> fst (migrate_table demo_driver plain_migrator (demo_world (rejecting_rows [[PNone, PStr ''c'']] empty_db))
             ''T'' ''full'' None ''drop_and_recreate'' 2) = Inr False"
proof -
  let ?w = "demo_world (rejecting_rows [[PNone, PStr ''c'']] empty_db)"
  let ?m = "migrate_table demo_driver plain_migrator ?w ''T'' ''full'' None ''drop_and_recreate'' 2"
  have h: "Rollback \<in> set (new_events ?w (snd ?m))" by code_simp
  have o: "CursorOpen ''SELECT * FROM T'' 2 \<in> set (new_events ?w (snd ?m))" by code_simp
  from cursor_closed_only_after_empty_fetch[of ?w 2 "[]" demo_driver "[]" "[]" 0 plain_migrator "''T''" "''full''" None "''drop_and_recreate''"]
  have "Rollback \<in> set (new_events ?w (snd ?m)) \<longrightarrow>
         CursorClose \<notin> set (new_events ?w (snd ?m)) \<and> fst ?m = Inr False"
    by blast
  with h o show ?thesis by blast
qed

subsection \<open>The INSERT statement and the bound tuples\<close>



text \<open>
  C3, as the specification words it, fails. The source column was created under the
  quoted name \<open>"id"\<close>; the target's dictionary lists the column as \<open>ID\<close>, before the run
  and after it. The statement that is run names the column \<open>id\<close>, as the source does, not
  \<open>ID\<close>, as the names read from the target connection would.
\<close>

theorem insert_columns_from_target_counterexample:
  "ExecuteMany ''INSERT INTO T (id) VALUES (:1)'' [[PInt 7]]
     \<in> set (new_events quoted_world
          (snd (migrate_table demo_driver plain_migrator quoted_world ''T'' ''full'' None ''drop_and_recreate'' 10)))
   \<and> ''INSERT INTO T (id) VALUES (:1)''
       \<noteq> prepare_insert_statement ''T'' (map name (get_table_schema demo_driver (target quoted_world) ''T''))
   \<and> ''INSERT INTO T (id) VALUES (:1)''
       \<noteq> prepare_insert_statement ''T'' (map name (get_table_schema demo_driver
            (target (snd (migrate_table demo_driver plain_migrator quoted_world ''T'' ''full'' None ''drop_and_recreate'' 10)))
            ''T''))"
  by code_simp

text \<open>
  C3, amended. The statement of every bulk insert is built from the column names of the
  source schema, read from the dictionary of the source connection.
\<close>

theorem insert_statement_from_source_schema:
  "ExecuteMany s rows \<in> set (new_events w (snd (migrate_table drv self w t mode q beh k))) \<Longrightarrow>
   s = prepare_insert_statement t (map name (get_table_schema drv (source w) t))"
  using executemany_events by blast

theorem insert_statement_from_source_schema_witness:
  "ExecuteMany ''INSERT INTO T (id) VALUES (:1)'' [[PInt 7]]
     \<in> set (new_events quoted_world
          (snd (migrate_table demo_driver plain_migrator quoted_world ''T'' ''full'' None ''drop_and_recreate'' 10)))
   \<and> ''INSERT INTO T (id) VALUES (:1)''
       = prepare_insert_statement ''T'' (map name (get_table_schema demo_driver (source quoted_world) ''T''))"
proof -
  have h: "ExecuteMany ''INSERT INTO T (id) VALUES (:1)'' [[PInt 7]]
     \<in> set (new_events quoted_world
          (snd (migrate_table demo_driver plain_migrator quoted_world ''T'' ''full'' None ''drop_and_recreate'' 10)))"
    by code_simp
  from insert_statement_from_source_schema[OF h] h show ?thesis by blast
qed

end
